theory Spec2Isabelle
  imports Complex_Main
begin

section \<open>JavaScript values\<close>

text \<open>
  Request bodies are JavaScript objects of unknown shape. A value is one of
  the kinds below; an object is a map from keys to values, an absent key
  reads as \<open>undefined\<close> (\<open>None\<close>). Times are integers: milliseconds since
  the epoch, as \<open>Date.now()\<close> returns them. Amounts are exact rationals
  (the IEEE rounding of JavaScript numbers is not modelled).
\<close>

datatype json =
    JNull
  | JBool bool
  | JNum rat
  | JStr string
  | JDate int
  | JArr "json list"
  | JObj "(string \<times> json) list"

type_synonym jsobject = "string \<Rightarrow> json option"

text \<open>Truthiness of an optional string: \<open>undefined\<close>, \<open>null\<close> and \<open>""\<close> are falsy.\<close>

definition truthy_str :: "string option \<Rightarrow> bool" where
  "truthy_str v = (case v of None \<Rightarrow> False | Some s \<Rightarrow> s \<noteq> [])"

text \<open>\<open>a || b\<close> on optional strings.\<close>

definition js_or :: "string option \<Rightarrow> string option \<Rightarrow> string option" where
  "js_or a b = (if truthy_str a then a else b)"


section \<open>Data model (shared/schema.ts)\<close>

record user =
  u_id :: string
  u_email :: string
  u_passwordHash :: string
  u_firstName :: string
  u_lastName :: string
  u_profileImageUrl :: "string option"
  u_role :: string
  u_createdAt :: int
  u_updatedAt :: int

record company =
  c_id :: string
  c_name :: string
  c_description :: "string option"
  c_plan :: string
  c_maxUsers :: int
  c_maxAssets :: int
  c_isActive :: bool
  c_ruc :: "string option"
  c_cedula :: "string option"
  c_address :: "string option"
  c_phone :: "string option"
  c_email :: "string option"
  c_createdAt :: int
  c_updatedAt :: int

record userCompany =
  uc_id :: string
  uc_userId :: string
  uc_companyId :: string
  uc_role :: string
  uc_createdAt :: int

record asset =
  a_id :: string
  a_companyId :: string
  a_name :: string
  a_type :: string
  a_description :: "string option"
  a_serialNumber :: "string option"
  a_model :: "string option"
  a_manufacturer :: "string option"
  a_purchaseDate :: "int option"
  a_warrantyExpiry :: "int option"
  a_monthlyCost :: "rat option"
  a_annualCost :: "rat option"
  a_status :: string
  a_location :: "string option"
  a_assignedTo :: "string option"
  a_notes :: "string option"
  a_applicationType :: "string option"
  a_url :: "string option"
  a_version :: "string option"
  a_domainCost :: "rat option"
  a_sslCost :: "rat option"
  a_hostingCost :: "rat option"
  a_serverCost :: "rat option"
  a_domainExpiry :: "int option"
  a_sslExpiry :: "int option"
  a_hostingExpiry :: "int option"
  a_serverExpiry :: "int option"
  a_createdAt :: int
  a_updatedAt :: int

text \<open>The object the handlers pass to \<open>storage.logActivity\<close>.\<close>

record activity =
  al_companyId :: string
  al_userId :: string
  al_action :: string
  al_entityType :: string
  al_entityId :: "string option"
  al_entityName :: "string option"

section \<open>Exceptions\<close>

text \<open>
  What the source throws and catches. A \<open>ZodError\<close> carries its issues,
  kept as the paths of the fields that failed. \<open>Error\<close> is any other
  error object, with its \<open>message\<close> and its \<open>code\<close> (set by the database
  driver). The last three are the errors of the jsonwebtoken library.
\<close>

datatype exn =
    ZodError "string list"
  | Error string "string option"
  | JsonWebTokenError string
  | TokenExpiredError
  | NotBeforeError

section \<open>Validation schemas (shared/schema.ts)\<close>

text \<open>
  The part of the zod library that the schemas use: \<open>z.string().min(n)\<close>,
  \<open>z.string().email()\<close>, \<open>z.enum\<close>, \<open>z.number()\<close>, \<open>z.date()\<close>,
  \<open>.optional()\<close>, \<open>.nullable()\<close> and \<open>.refine(p)\<close>. The e-mail check is
  zod's own regular expression and stays a parameter.
\<close>

datatype ztype =
    ZString nat
  | ZEmail
  | ZEnum "string list"
  | ZNumber
  | ZDate
  | ZOptional ztype
  | ZNullable ztype
  | ZRefine ztype "json option \<Rightarrow> bool"

fun accepts :: "(string \<Rightarrow> bool) \<Rightarrow> ztype \<Rightarrow> json option \<Rightarrow> bool" where
  "accepts em (ZOptional t) v = (v = None \<or> accepts em t v)"
| "accepts em (ZNullable t) v = (v = Some JNull \<or> accepts em t v)"
| "accepts em (ZRefine t p) v = (accepts em t v \<and> p v)"
| "accepts em (ZString n) v = (case v of Some (JStr s) \<Rightarrow> n \<le> length s | _ \<Rightarrow> False)"
| "accepts em ZEmail v = (case v of Some (JStr s) \<Rightarrow> em s | _ \<Rightarrow> False)"
| "accepts em (ZEnum xs) v = (case v of Some (JStr s) \<Rightarrow> s \<in> set xs | _ \<Rightarrow> False)"
| "accepts em ZNumber v = (case v of Some (JNum r) \<Rightarrow> True | _ \<Rightarrow> False)"
| "accepts em ZDate v = (case v of Some (JDate d) \<Rightarrow> True | _ \<Rightarrow> False)"

text \<open>
  \<open>z.object({...}).parse(obj)\<close>: every field is checked; with no issue the
  result is the object cut down to the keys of the schema, else a
  \<open>ZodError\<close> is thrown.
\<close>

definition zod_issues :: "(string \<Rightarrow> bool) \<Rightarrow> (string \<times> ztype) list \<Rightarrow> jsobject \<Rightarrow> string list" where
  "zod_issues em schema obj = map fst (filter (\<lambda>(k, t). \<not> accepts em t (obj k)) schema)"

definition zod_strip :: "(string \<times> ztype) list \<Rightarrow> jsobject \<Rightarrow> jsobject" where
  "zod_strip schema obj = (\<lambda>k. if k \<in> set (map fst schema) then obj k else None)"

definition zod_object_parse ::
  "(string \<Rightarrow> bool) \<Rightarrow> (string \<times> ztype) list \<Rightarrow> jsobject \<Rightarrow> exn + jsobject" where
  "zod_object_parse em schema obj =
     (let issues = zod_issues em schema obj
      in if issues = [] then Inr (zod_strip schema obj) else Inl (ZodError issues))"

text \<open>
  A string field of a parsed object, and an optional one. The default of
  \<open>str_field\<close> is never read: a schema has checked the field before.
\<close>

definition str_field :: "jsobject \<Rightarrow> string \<Rightarrow> string" where
  "str_field obj k = (case obj k of Some (JStr s) \<Rightarrow> s | _ \<Rightarrow> [])"

definition opt_str_field :: "jsobject \<Rightarrow> string \<Rightarrow> string option" where
  "opt_str_field obj k = (case obj k of Some (JStr s) \<Rightarrow> Some s | _ \<Rightarrow> None)"

definition insertAssetSchema :: "(string \<times> ztype) list" where
  "insertAssetSchema =
     [(''companyId'', ZString 0),
      (''name'', ZString 1),
      (''type'', ZEnum [''physical'', ''application'', ''license'', ''contract'']),
      (''description'', ZNullable (ZOptional (ZString 0))),
      (''serialNumber'', ZNullable (ZOptional (ZString 0))),
      (''model'', ZNullable (ZOptional (ZString 0))),
      (''manufacturer'', ZNullable (ZOptional (ZString 0))),
      (''purchaseDate'', ZNullable (ZOptional ZDate)),
      (''warrantyExpiry'', ZNullable (ZOptional ZDate)),
      (''monthlyCost'', ZOptional ZNumber),
      (''annualCost'', ZOptional ZNumber),
      (''status'', ZOptional (ZEnum [''active'', ''inactive'', ''maintenance'',
                                      ''deprecated'', ''disposed''])),
      (''location'', ZNullable (ZOptional (ZString 0))),
      (''assignedTo'', ZNullable (ZOptional (ZString 0))),
      (''notes'', ZNullable (ZOptional (ZString 0))),
      (''applicationType'', ZNullable (ZOptional (ZEnum [''saas'', ''custom_development'']))),
      (''url'', ZNullable (ZOptional (ZString 0))),
      (''version'', ZNullable (ZOptional (ZString 0))),
      (''domainCost'', ZOptional ZNumber),
      (''sslCost'', ZOptional ZNumber),
      (''hostingCost'', ZOptional ZNumber),
      (''serverCost'', ZOptional ZNumber),
      (''domainExpiry'', ZNullable (ZOptional ZDate)),
      (''sslExpiry'', ZNullable (ZOptional ZDate)),
      (''hostingExpiry'', ZNullable (ZOptional ZDate)),
      (''serverExpiry'', ZNullable (ZOptional ZDate))]"

text \<open>\<open>/^\d{n}$/.test(val)\<close>: exactly \<open>n\<close> characters, each a decimal digit.\<close>

definition is_digit :: "char \<Rightarrow> bool" where
  "is_digit c = (c \<in> set ''0123456789'')"

definition digits_exactly :: "nat \<Rightarrow> string \<Rightarrow> bool" where
  "digits_exactly n s = (length s = n \<and> list_all is_digit s)"

text \<open>
  The refinement of \<open>ruc\<close> and \<open>cedula\<close>, \<open>(val) => !val || /^\d{n}$/.test(val)\<close>:
  a value that is not set, or is the empty string, passes.
\<close>

definition idRule :: "nat \<Rightarrow> json option \<Rightarrow> bool" where
  "idRule n v =
     (case v of None \<Rightarrow> True
      | Some (JStr s) \<Rightarrow> s = [] \<or> digits_exactly n s
      | Some _ \<Rightarrow> False)"

definition companyRegistrationFields :: "(string \<times> ztype) list" where
  "companyRegistrationFields =
     [(''name'', ZString 1),
      (''plan'', ZEnum [''pyme'', ''professional'']),
      (''ruc'', ZRefine (ZOptional (ZString 0)) (idRule 13)),
      (''cedula'', ZRefine (ZOptional (ZString 0)) (idRule 10)),
      (''address'', ZString 1),
      (''phone'', ZString 1),
      (''email'', ZEmail),
      (''firstName'', ZString 1),
      (''lastName'', ZString 1),
      (''password'', ZString 6),
      (''confirmPassword'', ZString 0)]"

text \<open>
  \<open>companyRegistrationSchema.parse\<close>: the object schema, then the refinement
  \<open>data.password === data.confirmPassword\<close> with path \<open>confirmPassword\<close>.
\<close>

definition companyRegistrationSchema_parse :: "(string \<Rightarrow> bool) \<Rightarrow> jsobject \<Rightarrow> exn + jsobject" where
  "companyRegistrationSchema_parse em body =
     (case zod_object_parse em companyRegistrationFields body of
        Inl error \<Rightarrow> Inl error
      | Inr data \<Rightarrow>
          if str_field data ''password'' = str_field data ''confirmPassword'' then Inr data
          else Inl (ZodError [''confirmPassword'']))"

definition loginSchema :: "(string \<times> ztype) list" where
  "loginSchema = [(''email'', ZEmail), (''password'', ZString 1)]"

section \<open>Authentication module (server/auth.ts)\<close>

text \<open>
  What the module takes from outside: SHA-256 in hexadecimal (crypto), the
  HMAC of jsonwebtoken's default algorithm over the claims, zod's e-mail
  check, and \<open>Date.prototype.toISOString\<close>. They are parameters: no
  property below depends on what they compute.
\<close>

record supportMode =
  sm_companyId :: string
  sm_adminId :: string
  sm_startTime :: string

text \<open>
  A token payload, \<open>payload: any\<close> in the source: the fields the code reads,
  each possibly absent, and whatever else the object carries.
\<close>

record payload =
  p_id :: "string option"
  p_userId :: "string option"
  p_email :: "string option"
  p_firstName :: "string option"
  p_lastName :: "string option"
  p_role :: "string option"
  p_supportMode :: "supportMode option"
  p_iat :: "int option"
  p_exp :: "int option"
  p_other :: "(string \<times> json) list"

record lib =
  sha256hex :: "string \<Rightarrow> string"
  hs256 :: "string \<Rightarrow> payload \<Rightarrow> string"
  isEmail :: "string \<Rightarrow> bool"
  toISOString :: "int \<Rightarrow> string"

record env =
  JWT_SECRET :: "string option"
  NODE_ENV :: "string option"

text \<open>\<open>process.env.JWT_SECRET || "dev-secret-change-in-production"\<close>\<close>

definition jwtSecret :: "env \<Rightarrow> string" where
  "jwtSecret e =
     (case JWT_SECRET e of
        None \<Rightarrow> ''dev-secret-change-in-production''
      | Some s \<Rightarrow> if s = [] then ''dev-secret-change-in-production'' else s)"

subsection \<open>The jsonwebtoken library\<close>

text \<open>
  A token string either splits into claims and a signature, or it does not
  (\<open>Malformed\<close>). The header is the library's default and is left out.
\<close>

datatype token = Signed payload string | Malformed string

definition sevenDays :: int where
  "sevenDays = 7 * 24 * 60 * 60"

text \<open>
  The claim \<open>nbf\<close> ("not before"), which the code never sets but a payload
  may carry among its other fields.
\<close>

definition nbf_claim :: "payload \<Rightarrow> json option" where
  "nbf_claim pl = map_of (p_other pl) ''nbf''"

text \<open>
  \<open>jwt.sign(payload, secret, {expiresIn: "7d"})\<close> at clock \<open>now\<close>
  (milliseconds). The library refuses a payload whose \<open>nbf\<close> is not a
  number and one that has an \<open>exp\<close> of its own, and counts the seven days
  from \<open>payload.iat || Math.floor(Date.now() / 1000)\<close>, in seconds.
\<close>

definition jwt_sign :: "lib \<Rightarrow> string \<Rightarrow> int \<Rightarrow> payload \<Rightarrow> exn + token" where
  "jwt_sign l secret now pl =
     (if (case nbf_claim pl of None \<Rightarrow> False | Some (JNum n) \<Rightarrow> False | Some _ \<Rightarrow> True) then
        Inl (Error ''nbf should be a number of seconds'' None)
      else if p_exp pl \<noteq> None then
        Inl (Error ''Bad options.expiresIn option the payload already has an exp property.''
               None)
      else
        let timestamp =
              (case p_iat pl of
                 Some i \<Rightarrow> if i = 0 then now div 1000 else i
               | None \<Rightarrow> now div 1000);
            claims = pl\<lparr>p_iat := Some timestamp, p_exp := Some (timestamp + sevenDays)\<rparr>
        in Inr (Signed claims (hs256 l secret claims)))"

text \<open>
  The two checks on the claims that \<open>jwt.verify\<close> makes by default, against
  the clock in seconds: a token is refused before its \<open>nbf\<close>, and from its
  \<open>exp\<close> on.
\<close>

definition jwt_check_nbf :: "int \<Rightarrow> payload \<Rightarrow> exn option" where
  "jwt_check_nbf now claims =
     (case nbf_claim claims of
        None \<Rightarrow> None
      | Some (JNum n) \<Rightarrow> if n > of_int (now div 1000) then Some NotBeforeError else None
      | Some _ \<Rightarrow> Some (JsonWebTokenError ''invalid nbf value''))"

definition jwt_check_exp :: "int \<Rightarrow> payload \<Rightarrow> exn option" where
  "jwt_check_exp now claims =
     (case p_exp claims of
        None \<Rightarrow> None
      | Some e \<Rightarrow> if now div 1000 \<ge> e then Some TokenExpiredError else None)"

text \<open>
  \<open>jwt.verify(token, secret)\<close> at clock \<open>now\<close>: the signature is recomputed
  and compared, then \<open>nbf\<close> and \<open>exp\<close> are checked, in this order.
\<close>

definition jwt_verify :: "lib \<Rightarrow> string \<Rightarrow> int \<Rightarrow> token \<Rightarrow> exn + payload" where
  "jwt_verify l secret now tok =
     (case tok of
        Malformed _ \<Rightarrow> Inl (JsonWebTokenError ''jwt malformed'')
      | Signed claims sig \<Rightarrow>
          if sig \<noteq> hs256 l secret claims then Inl (JsonWebTokenError ''invalid signature'')
          else (case jwt_check_nbf now claims of
                  Some error \<Rightarrow> Inl error
                | None \<Rightarrow>
                    (case jwt_check_exp now claims of
                       Some error \<Rightarrow> Inl error
                     | None \<Rightarrow> Inr claims)))"

subsection \<open>passwordUtils and jwtUtils\<close>

definition hash :: "lib \<Rightarrow> string \<Rightarrow> string" where
  "hash l password = sha256hex l password"

definition verify :: "lib \<Rightarrow> string \<Rightarrow> string \<Rightarrow> bool" where
  "verify l password h = (sha256hex l password = h)"

text \<open>The object literal of \<open>generateToken\<close>: the fields that are kept.\<close>

definition finalPayload :: "payload \<Rightarrow> payload" where
  "finalPayload pl =
     \<lparr>p_id = None,
      p_userId = js_or (p_userId pl) (p_id pl),
      p_email = p_email pl,
      p_firstName = p_firstName pl,
      p_lastName = p_lastName pl,
      p_role = p_role pl,
      p_supportMode = p_supportMode pl,
      p_iat = None,
      p_exp = None,
      p_other = []\<rparr>"

definition generateToken :: "lib \<Rightarrow> env \<Rightarrow> int \<Rightarrow> payload \<Rightarrow> exn + token" where
  "generateToken l e now pl = jwt_sign l (jwtSecret e) now (finalPayload pl)"

text \<open>
  \<open>verifyToken\<close>: \<open>try { return jwt.verify(...) } catch (error) { return null }\<close>.
  The result is a sum as well, so that a throw to the caller would show.
\<close>

definition verifyToken :: "lib \<Rightarrow> env \<Rightarrow> int \<Rightarrow> token \<Rightarrow> exn + payload option" where
  "verifyToken l e now tok =
     (case jwt_verify l (jwtSecret e) now tok of
        Inr decoded \<Rightarrow> Inr (Some decoded)
      | Inl error \<Rightarrow> Inr None)"

subsection \<open>Middleware\<close>

text \<open>
  The middleware of \<open>setupAuth\<close>: \<open>req.user\<close> is the decoded cookie when the
  cookie is there and verifies, else it stays unset.
\<close>

definition jwt_middleware :: "lib \<Rightarrow> env \<Rightarrow> int \<Rightarrow> token option \<Rightarrow> payload option" where
  "jwt_middleware l e now cookie =
     (case cookie of
        None \<Rightarrow> None
      | Some tok \<Rightarrow>
          (case jwt_verify l (jwtSecret e) now tok of
             Inr decoded \<Rightarrow> Some decoded
           | Inl error \<Rightarrow> None))"

text \<open>\<open>isAuthenticated\<close>: \<open>req.user && req.user.userId\<close>.\<close>

definition isAuthenticated :: "payload option \<Rightarrow> bool" where
  "isAuthenticated u = (case u of None \<Rightarrow> False | Some x \<Rightarrow> truthy_str (p_userId x))"

section \<open>Storage interface (server/storage.ts)\<close>

text \<open>
  The routes import \<open>storage\<close> from a module that is not among the sources.
  Its operations are parameters of the handlers: each reads or changes a
  store of some type \<open>'s\<close> and may throw. An operation that throws leaves
  the store as it was.
\<close>

record 's storage =
  registerCompany :: "jsobject \<Rightarrow> 's \<Rightarrow> exn + ((company \<times> user) \<times> 's)"
  getUserByEmail :: "string \<Rightarrow> 's \<Rightarrow> exn + user option"
  getUser :: "string \<Rightarrow> 's \<Rightarrow> exn + user option"
  getUserCompanies :: "string \<Rightarrow> 's \<Rightarrow> exn + userCompany list option"
  getCompanyById :: "string \<Rightarrow> 's \<Rightarrow> exn + company option"
  getAssetsByCompany :: "string \<Rightarrow> 's \<Rightarrow> exn + asset list"
  createAsset :: "jsobject \<Rightarrow> 's \<Rightarrow> exn + (asset \<times> 's)"
  logActivity :: "activity \<Rightarrow> 's \<Rightarrow> exn + 's"

section \<open>Routes (server/routes.ts)\<close>

text \<open>Letters outside ASCII in the messages, by code point.\<close>

definition aacute :: char where "aacute = CHR 0xE1"
definition eacute :: char where "eacute = CHR 0xE9"
definition oacute :: char where "oacute = CHR 0xF3"
definition ntilde :: char where "ntilde = CHR 0xF1"

record pubuser =
  pu_id :: string
  pu_email :: string
  pu_firstName :: string
  pu_lastName :: string
  pu_role :: string

text \<open>The JSON bodies that the modelled routes send.\<close>

datatype res_body =
    Message string
  | MessageError string string
  | MessageErrors string "string list"
  | AssetJson asset
  | AssetsJson "asset list"
  | LoginJson string pubuser
  | RegisteredJson string company pubuser
  | SupportGranted string company bool payload
  | SupportExited string bool payload

datatype cookie_action = NoCookie | SetJwt token | ClearJwt

record response =
  res_status :: nat
  res_body :: res_body
  res_cookie :: cookie_action

text \<open>A request after the cookie middleware: \<open>req.user\<close> and \<open>req.body\<close>.\<close>

record request =
  req_user :: "payload option"
  req_body :: jsobject

definition json_status :: "nat \<Rightarrow> res_body \<Rightarrow> response" where
  "json_status code b = \<lparr>res_status = code, res_body = b, res_cookie = NoCookie\<rparr>"

definition unauthorized :: response where
  "unauthorized =
     json_status 401
       (MessageError ''Unauthorized''
          (''Debe iniciar sesi'' @ [oacute] @ ''n para acceder a este recurso''))"

text \<open>
  A route behind \<open>isAuthenticated\<close>: the handler runs with \<open>req.user\<close> and
  \<open>req.user.userId\<close> when the middleware lets the request through.
\<close>

definition protected ::
  "request \<Rightarrow> 's \<Rightarrow> (payload \<Rightarrow> string \<Rightarrow> response \<times> 's) \<Rightarrow> response \<times> 's" where
  "protected req s handler =
     (if isAuthenticated (req_user req) then
        (case req_user req of
           None \<Rightarrow> (unauthorized, s)
         | Some u \<Rightarrow>
             (case p_userId u of None \<Rightarrow> (unauthorized, s) | Some userId \<Rightarrow> handler u userId))
      else (unauthorized, s))"

definition pub :: "user \<Rightarrow> pubuser" where
  "pub u =
     \<lparr>pu_id = u_id u, pu_email = u_email u, pu_firstName = u_firstName u,
      pu_lastName = u_lastName u, pu_role = u_role u\<rparr>"

text \<open>The payload that register and login hand to \<open>generateToken\<close>.\<close>

definition user_payload :: "user \<Rightarrow> payload" where
  "user_payload u =
     \<lparr>p_id = Some (u_id u), p_userId = None, p_email = Some (u_email u),
      p_firstName = Some (u_firstName u), p_lastName = Some (u_lastName u),
      p_role = Some (u_role u), p_supportMode = None, p_iat = None, p_exp = None,
      p_other = []\<rparr>"

subsection \<open>POST /api/register\<close>

definition emailTaken :: string where
  "emailTaken = ''El email ya est'' @ [aacute] @ '' registrado''"

text \<open>
  The \<open>catch\<close> of the register route. It is entered before anything was
  sent, so \<open>res.headersSent\<close> is false. Only an error of the storage carries
  the message or the code that it looks for; a \<open>ZodError\<close> (whose message is
  the list of its issues) and the rest end in the last branch.
\<close>

definition register_catch :: "exn \<Rightarrow> response" where
  "register_catch error =
     (case error of
        Error message code \<Rightarrow>
          if message = emailTaken then json_status 400 (Message message)
          else if code = Some ''23505'' then
            json_status 400
              (Message (''Ya existe una empresa con este RUC/C'' @ [eacute] @ ''dula o email''))
          else json_status 500 (Message ''Error al registrar empresa'')
      | _ \<Rightarrow> json_status 500 (Message ''Error al registrar empresa''))"

definition register_handler ::
  "'s storage \<Rightarrow> lib \<Rightarrow> env \<Rightarrow> int \<Rightarrow> jsobject \<Rightarrow> 's \<Rightarrow> response \<times> 's" where
  "register_handler st l e now body s =
     (case companyRegistrationSchema_parse (isEmail l) body of
        Inl error \<Rightarrow> (register_catch error, s)
      | Inr registrationData \<Rightarrow>
          let passwordHash = hash l (str_field registrationData ''password'')
          in (case registerCompany st
                     (registrationData(''passwordHash'' \<mapsto> JStr passwordHash)) s of
                Inl error \<Rightarrow> (register_catch error, s)
              | Inr ((company, usr), s') \<Rightarrow>
                  (case generateToken l e now (user_payload usr) of
                     Inl error \<Rightarrow> (register_catch error, s')
                   | Inr tok \<Rightarrow>
                       (\<lparr>res_status = 200,
                         res_body = RegisteredJson ''Empresa registrada exitosamente''
                                      company (pub usr),
                         res_cookie = SetJwt tok\<rparr>, s'))))"

subsection \<open>POST /api/login\<close>

definition invalidCredentials :: string where
  "invalidCredentials = ''Email o contrase'' @ [ntilde] @ ''a incorrectos''"

definition loginError :: string where
  "loginError = ''Error al iniciar sesi'' @ [oacute] @ ''n''"

definition login_handler ::
  "'s storage \<Rightarrow> lib \<Rightarrow> env \<Rightarrow> int \<Rightarrow> jsobject \<Rightarrow> 's \<Rightarrow> response \<times> 's" where
  "login_handler st l e now body s =
     (case zod_object_parse (isEmail l) loginSchema body of
        Inl error \<Rightarrow> (json_status 500 (Message loginError), s)
      | Inr parsed \<Rightarrow>
          let email = str_field parsed ''email''; password = str_field parsed ''password''
          in (case getUserByEmail st email s of
                Inl error \<Rightarrow> (json_status 500 (Message loginError), s)
              | Inr None \<Rightarrow> (json_status 401 (Message invalidCredentials), s)
              | Inr (Some usr) \<Rightarrow>
                  if \<not> verify l password (u_passwordHash usr) then
                    (json_status 401 (Message invalidCredentials), s)
                  else
                    (case generateToken l e now (user_payload usr) of
                       Inl error \<Rightarrow> (json_status 500 (Message loginError), s)
                     | Inr tok \<Rightarrow>
                         (\<lparr>res_status = 200,
                           res_body = LoginJson ''Login exitoso'' (pub usr),
                           res_cookie = SetJwt tok\<rparr>, s))))"

subsection \<open>GET /api/assets/:companyId\<close>

definition get_assets_handler :: "'s storage \<Rightarrow> string \<Rightarrow> 's \<Rightarrow> response \<times> 's" where
  "get_assets_handler st companyId s =
     (case getAssetsByCompany st companyId s of
        Inr assets \<Rightarrow> (json_status 200 (AssetsJson assets), s)
      | Inl error \<Rightarrow> (json_status 500 (Message ''Failed to fetch assets''), s))"

definition get_assets :: "'s storage \<Rightarrow> string \<Rightarrow> request \<Rightarrow> 's \<Rightarrow> response \<times> 's" where
  "get_assets st companyId req s =
     protected req s (\<lambda>u userId. get_assets_handler st companyId s)"

subsection \<open>POST /api/assets\<close>

definition post_assets_catch :: "exn \<Rightarrow> response" where
  "post_assets_catch error =
     (case error of
        ZodError errors \<Rightarrow>
          json_status 400
            (MessageErrors (''Error de validaci'' @ [oacute] @ ''n en los datos del activo'')
               errors)
      | _ \<Rightarrow> json_status 500 (Message ''Error al crear el activo''))"

definition created_activity :: "string \<Rightarrow> string \<Rightarrow> asset \<Rightarrow> activity" where
  "created_activity companyIdFromDB userId a =
     \<lparr>al_companyId = companyIdFromDB, al_userId = userId, al_action = ''created'',
      al_entityType = ''asset'', al_entityId = Some (a_id a),
      al_entityName = Some (a_name a)\<rparr>"

text \<open>Steps 3 to 5 of the route: what is validated and what is inserted.\<close>

definition dataToValidate :: "jsobject \<Rightarrow> string \<Rightarrow> jsobject" where
  "dataToValidate body companyIdFromDB = body(''companyId'' \<mapsto> JStr companyIdFromDB)"

definition dataToInsert :: "jsobject \<Rightarrow> string \<Rightarrow> jsobject" where
  "dataToInsert validatedData userId = validatedData(''assignedTo'' \<mapsto> JStr userId)"

definition post_assets_handler ::
  "'s storage \<Rightarrow> lib \<Rightarrow> string \<Rightarrow> jsobject \<Rightarrow> 's \<Rightarrow> response \<times> 's" where
  "post_assets_handler st l userId body s =
     (case getUserCompanies st userId s of
        Inl error \<Rightarrow> (post_assets_catch error, s)
      | Inr None \<Rightarrow>
          (json_status 403 (Message ''Usuario no asociado a ninguna empresa activa.''), s)
      | Inr (Some []) \<Rightarrow>
          (json_status 403 (Message ''Usuario no asociado a ninguna empresa activa.''), s)
      | Inr (Some (uc # rest)) \<Rightarrow>
          let companyIdFromDB = uc_companyId uc
          in (case zod_object_parse (isEmail l) insertAssetSchema
                     (dataToValidate body companyIdFromDB) of
                Inl error \<Rightarrow> (post_assets_catch error, s)
              | Inr validatedData \<Rightarrow>
                  (case createAsset st (dataToInsert validatedData userId) s of
                     Inl error \<Rightarrow> (post_assets_catch error, s)
                   | Inr (a, s1) \<Rightarrow>
                       (case logActivity st (created_activity companyIdFromDB userId a) s1 of
                          Inl error \<Rightarrow> (post_assets_catch error, s1)
                        | Inr s2 \<Rightarrow> (json_status 200 (AssetJson a), s2)))))"

definition post_assets :: "'s storage \<Rightarrow> lib \<Rightarrow> request \<Rightarrow> 's \<Rightarrow> response \<times> 's" where
  "post_assets st l req s =
     protected req s (\<lambda>u userId. post_assets_handler st l userId (req_body req) s)"

subsection \<open>Support mode\<close>

definition superAdminRequired :: response where
  "superAdminRequired = json_status 403 (Message ''Access denied. Super admin required.'')"

text \<open>\<open>user?.role !== 'super_admin'\<close>\<close>

definition not_super_admin :: "user option \<Rightarrow> bool" where
  "not_super_admin u = (case u of None \<Rightarrow> True | Some x \<Rightarrow> u_role x \<noteq> ''super_admin'')"

text \<open>
  POST /api/admin/support-access/:companyId. The cookie is set before the
  access is logged, so a log that throws still leaves it on the response.
\<close>

definition support_access_handler ::
  "'s storage \<Rightarrow> lib \<Rightarrow> env \<Rightarrow> int \<Rightarrow> string \<Rightarrow> payload \<Rightarrow> string \<Rightarrow> 's \<Rightarrow> response \<times> 's" where
  "support_access_handler st l e now companyId reqUser userId s =
     (let failed = json_status 500 (Message ''Failed to grant support access'')
      in case getUser st userId s of
           Inl error \<Rightarrow> (failed, s)
         | Inr None \<Rightarrow> (superAdminRequired, s)
         | Inr (Some usr) \<Rightarrow>
             if not_super_admin (Some usr) then (superAdminRequired, s)
             else
               (case getCompanyById st companyId s of
                  Inl error \<Rightarrow> (failed, s)
                | Inr None \<Rightarrow> (json_status 404 (Message ''Company not found''), s)
                | Inr (Some company) \<Rightarrow>
                    let supportModeData =
                          \<lparr>sm_companyId = companyId, sm_adminId = u_id usr,
                           sm_startTime = toISOString l now\<rparr>;
                        newPayload = reqUser\<lparr>p_supportMode := Some supportModeData\<rparr>
                    in (case generateToken l e now newPayload of
                          Inl error \<Rightarrow> (failed, s)
                        | Inr newToken \<Rightarrow>
                            (case logActivity st
                                    \<lparr>al_companyId = companyId, al_userId = u_id usr,
                                     al_action = ''accessed'', al_entityType = ''company'',
                                     al_entityId = Some companyId,
                                     al_entityName =
                                       Some (''Support access to '' @ c_name company)\<rparr> s of
                               Inl error \<Rightarrow> (failed\<lparr>res_cookie := SetJwt newToken\<rparr>, s)
                             | Inr s' \<Rightarrow>
                                 (\<lparr>res_status = 200,
                                   res_body = SupportGranted ''Support access granted''
                                                company True newPayload,
                                   res_cookie = SetJwt newToken\<rparr>, s')))))"

definition support_access ::
  "'s storage \<Rightarrow> lib \<Rightarrow> env \<Rightarrow> int \<Rightarrow> string \<Rightarrow> request \<Rightarrow> 's \<Rightarrow> response \<times> 's" where
  "support_access st l e now companyId req s =
     protected req s (\<lambda>u userId. support_access_handler st l e now companyId u userId s)"

text \<open>POST /api/admin/exit-support\<close>

definition exit_support_handler ::
  "'s storage \<Rightarrow> lib \<Rightarrow> env \<Rightarrow> int \<Rightarrow> payload \<Rightarrow> string \<Rightarrow> 's \<Rightarrow> response \<times> 's" where
  "exit_support_handler st l e now reqUser userId s =
     (let failed = json_status 500 (Message ''Failed to exit support mode'')
      in case getUser st userId s of
           Inl error \<Rightarrow> (failed, s)
         | Inr None \<Rightarrow> (superAdminRequired, s)
         | Inr (Some usr) \<Rightarrow>
             if not_super_admin (Some usr) then (superAdminRequired, s)
             else
               (case p_supportMode reqUser of
                  None \<Rightarrow>
                    (json_status 200 (SupportExited ''Exited support mode'' False reqUser), s)
                | Some supportInfo \<Rightarrow>
                    (case logActivity st
                            \<lparr>al_companyId = sm_companyId supportInfo, al_userId = u_id usr,
                             al_action = ''exited'', al_entityType = ''company'',
                             al_entityId = Some (sm_companyId supportInfo),
                             al_entityName = Some ''Exited support mode''\<rparr> s of
                       Inl error \<Rightarrow> (failed, s)
                     | Inr s' \<Rightarrow>
                         let newPayload = reqUser\<lparr>p_supportMode := None\<rparr>
                         in (case generateToken l e now newPayload of
                               Inl error \<Rightarrow> (failed, s')
                             | Inr newToken \<Rightarrow>
                                 (\<lparr>res_status = 200,
                                   res_body = SupportExited ''Exited support mode'' False
                                                newPayload,
                                   res_cookie = SetJwt newToken\<rparr>, s')))))"

definition exit_support ::
  "'s storage \<Rightarrow> lib \<Rightarrow> env \<Rightarrow> int \<Rightarrow> request \<Rightarrow> 's \<Rightarrow> response \<times> 's" where
  "exit_support st l e now req s =
     protected req s (\<lambda>u userId. exit_support_handler st l e now u userId s)"

section \<open>Registration page (client/src/pages/register.tsx)\<close>

datatype submit = Toast string string | Mutate jsobject

text \<open>
  \<open>onSubmit\<close>, which the form calls with data that passed
  \<open>companyRegistrationSchema\<close>: the identifier of the chosen plan must be
  there, or nothing is sent.
\<close>

definition onSubmit :: "jsobject \<Rightarrow> submit" where
  "onSubmit data =
     (if str_field data ''plan'' = ''pyme'' \<and> \<not> truthy_str (opt_str_field data ''ruc'') then
        Toast ''Error'' ''El RUC es obligatorio para empresas PyME.''
      else if str_field data ''plan'' = ''professional''
              \<and> \<not> truthy_str (opt_str_field data ''cedula'') then
        Toast ''Error'' (''La C'' @ [eacute] @ ''dula es obligatoria para profesionales.'')
      else Mutate data)"

section \<open>Applications page: expiry warning and monthly total\<close>

record expiry_item =
  item_name :: string
  item_date :: int

record expiry_warning =
  w_type :: string
  w_count :: nat
  w_items :: "expiry_item list"

text \<open>
  \<open>[{name, date}, ...].filter(item => item.date)\<close>: the four infrastructure
  dates of the application, those that are set, in the source's order.
\<close>

definition withDate :: "(string \<times> int option) list \<Rightarrow> expiry_item list" where
  "withDate xs =
     List.map_filter
       (\<lambda>(n, d). case d of None \<Rightarrow> None
                 | Some t \<Rightarrow> Some \<lparr>item_name = n, item_date = t\<rparr>) xs"

definition expiries :: "asset \<Rightarrow> expiry_item list" where
  "expiries app =
     withDate
       [(''Dominio'', a_domainExpiry app),
        (''SSL'', a_sslExpiry app),
        (''Hosting'', a_hostingExpiry app),
        (''Servidor'', a_serverExpiry app)]"

text \<open>
  \<open>getExpiryWarning\<close>. The source reads the clock twice: \<open>new Date()\<close> is
  \<open>now\<close>, and \<open>Date.now()\<close> is \<open>dateNow\<close>, the base of the thirty-day
  window.
\<close>

definition getExpiryWarning :: "int \<Rightarrow> int \<Rightarrow> asset \<Rightarrow> expiry_warning option" where
  "getExpiryWarning now dateNow app =
     (let thirtyDaysFromNow = dateNow + 30 * 24 * 60 * 60 * 1000;
          expired = filter (\<lambda>item. item_date item < now) (expiries app);
          expiringSoon =
            filter (\<lambda>item. item_date item \<ge> now \<and> item_date item \<le> thirtyDaysFromNow)
              (expiries app)
      in if length expired > 0 then
           Some \<lparr>w_type = ''expired'', w_count = length expired, w_items = expired\<rparr>
         else if length expiringSoon > 0 then
           Some \<lparr>w_type = ''expiring'', w_count = length expiringSoon,
                 w_items = expiringSoon\<rparr>
         else None)"



text \<open>An asset with a name and nothing else set; the examples build on it.\<close>

definition blank_asset :: asset where
  "blank_asset =
     \<lparr>a_id = ''a0'', a_companyId = ''c0'', a_name = ''asset'', a_type = ''application'',
      a_description = None, a_serialNumber = None, a_model = None,
      a_manufacturer = None, a_purchaseDate = None, a_warrantyExpiry = None,
      a_monthlyCost = None, a_annualCost = None, a_status = ''active'',
      a_location = None, a_assignedTo = None, a_notes = None,
      a_applicationType = None, a_url = None, a_version = None,
      a_domainCost = None, a_sslCost = None, a_hostingCost = None,
      a_serverCost = None, a_domainExpiry = None, a_sslExpiry = None,
      a_hostingExpiry = None, a_serverExpiry = None, a_createdAt = 0,
      a_updatedAt = 0\<rparr>"

subsection \<open>The specification's expiration status\<close>

datatype expiration_status = StatusNone | ExpiringSoon | Expired

text \<open>
  The specification's words, per date field: expired when the date is before
  the reference time, expiring soon when it lies within the thirty days from
  it, else none. A field that is not set has no status.
\<close>

definition thirtyDays :: int where
  "thirtyDays = 30 * 24 * 60 * 60 * 1000"

definition spec_fieldStatus :: "int \<Rightarrow> int option \<Rightarrow> expiration_status" where
  "spec_fieldStatus referenceTime d =
     (case d of None \<Rightarrow> StatusNone
      | Some t \<Rightarrow>
          if t < referenceTime then Expired
          else if referenceTime \<le> t \<and> t \<le> referenceTime + thirtyDays then ExpiringSoon
          else StatusNone)"

text \<open>The aggregate of a list of field statuses: expired wins over expiring soon.\<close>

definition spec_aggregate :: "expiration_status list \<Rightarrow> expiration_status" where
  "spec_aggregate sts =
     (if Expired \<in> set sts then Expired
      else if ExpiringSoon \<in> set sts then ExpiringSoon
      else StatusNone)"

text \<open>The specification's five tracked fields, and the four that the page aggregates.\<close>

definition spec_trackedFields :: "asset \<Rightarrow> int option list" where
  "spec_trackedFields a =
     [a_warrantyExpiry a, a_domainExpiry a, a_sslExpiry a, a_hostingExpiry a,
      a_serverExpiry a]"

definition infrastructureFields :: "asset \<Rightarrow> int option list" where
  "infrastructureFields a =
     [a_domainExpiry a, a_sslExpiry a, a_hostingExpiry a, a_serverExpiry a]"

definition spec_expirationStatus :: "int \<Rightarrow> asset \<Rightarrow> expiration_status" where
  "spec_expirationStatus referenceTime a =
     spec_aggregate (map (spec_fieldStatus referenceTime) (spec_trackedFields a))"

text \<open>The status that a result of \<open>getExpiryWarning\<close> stands for.\<close>

definition warning_status :: "expiry_warning option \<Rightarrow> expiration_status" where
  "warning_status w =
     (case w of None \<Rightarrow> StatusNone
      | Some x \<Rightarrow> if w_type x = ''expired'' then Expired else ExpiringSoon)"

section \<open>An in-memory store\<close>

text \<open>
  Modelled from the spec: the storage module (server/storage.ts) is not among
  the sources. The specification's Tenant Store keeps Users, Companies,
  UserCompany memberships, Assets and an append-only Activity Log; a query
  for a company is restricted to its \<open>companyId\<close>, a registration creates
  the company, its first user with role \<open>manager_owner\<close> and their
  membership together or fails on a duplicate, and \<open>log\<close> appends one
  record. Identifiers and timestamps come from the database; here an
  identifier counts the rows of its table and the clock is a field of the
  store. The usage limits of a new company are database defaults that the
  specification does not give; they are left 0.
\<close>

record store =
  st_users :: "user list"
  st_companies :: "company list"
  st_userCompanies :: "userCompany list"
  st_assets :: "asset list"
  st_activityLog :: "activity list"
  st_clock :: int

definition fresh_id :: "string \<Rightarrow> nat \<Rightarrow> string" where
  "fresh_id prefix n = prefix @ replicate n (CHR ''i'')"

definition num_field :: "jsobject \<Rightarrow> string \<Rightarrow> rat option" where
  "num_field obj k = (case obj k of Some (JNum r) \<Rightarrow> Some r | _ \<Rightarrow> None)"

definition date_field :: "jsobject \<Rightarrow> string \<Rightarrow> int option" where
  "date_field obj k = (case obj k of Some (JDate d) \<Rightarrow> Some d | _ \<Rightarrow> None)"

definition asset_row :: "string \<Rightarrow> int \<Rightarrow> jsobject \<Rightarrow> asset" where
  "asset_row ident clock d =
     \<lparr>a_id = ident, a_companyId = str_field d ''companyId'', a_name = str_field d ''name'',
      a_type = str_field d ''type'',
      a_description = opt_str_field d ''description'',
      a_serialNumber = opt_str_field d ''serialNumber'',
      a_model = opt_str_field d ''model'',
      a_manufacturer = opt_str_field d ''manufacturer'',
      a_purchaseDate = date_field d ''purchaseDate'',
      a_warrantyExpiry = date_field d ''warrantyExpiry'',
      a_monthlyCost = num_field d ''monthlyCost'',
      a_annualCost = num_field d ''annualCost'',
      a_status = (case opt_str_field d ''status'' of None \<Rightarrow> ''active'' | Some x \<Rightarrow> x),
      a_location = opt_str_field d ''location'',
      a_assignedTo = opt_str_field d ''assignedTo'',
      a_notes = opt_str_field d ''notes'',
      a_applicationType = opt_str_field d ''applicationType'',
      a_url = opt_str_field d ''url'',
      a_version = opt_str_field d ''version'',
      a_domainCost = num_field d ''domainCost'',
      a_sslCost = num_field d ''sslCost'',
      a_hostingCost = num_field d ''hostingCost'',
      a_serverCost = num_field d ''serverCost'',
      a_domainExpiry = date_field d ''domainExpiry'',
      a_sslExpiry = date_field d ''sslExpiry'',
      a_hostingExpiry = date_field d ''hostingExpiry'',
      a_serverExpiry = date_field d ''serverExpiry'',
      a_createdAt = clock, a_updatedAt = clock\<rparr>"

text \<open>Modelled from the spec: \<open>storage.createAsset\<close>, which is missing; it stores one new
  row built from the data and returns it.\<close>

definition mem_createAsset :: "jsobject \<Rightarrow> store \<Rightarrow> exn + (asset \<times> store)" where
  "mem_createAsset d s =
     (let a = asset_row (fresh_id ''asset-'' (length (st_assets s))) (st_clock s) d
      in Inr (a, s\<lparr>st_assets := st_assets s @ [a]\<rparr>))"

text \<open>Modelled from the spec: \<open>storage.logActivity\<close>, which is missing; it "appends one
  immutable record".\<close>

definition mem_logActivity :: "activity \<Rightarrow> store \<Rightarrow> exn + store" where
  "mem_logActivity entry s = Inr (s\<lparr>st_activityLog := st_activityLog s @ [entry]\<rparr>)"

text \<open>Modelled from the spec: \<open>storage.getAssetsByCompany\<close>, which is missing; the query
  is restricted to the \<open>companyId\<close>.\<close>

definition mem_getAssetsByCompany :: "string \<Rightarrow> store \<Rightarrow> exn + asset list" where
  "mem_getAssetsByCompany companyId s =
     Inr (filter (\<lambda>a. a_companyId a = companyId) (st_assets s))"

text \<open>Modelled from the spec: \<open>storage.getUserCompanies\<close>, which is missing; the
  memberships of the user.\<close>

definition mem_getUserCompanies :: "string \<Rightarrow> store \<Rightarrow> exn + userCompany list option" where
  "mem_getUserCompanies userId s =
     Inr (Some (filter (\<lambda>uc. uc_userId uc = userId) (st_userCompanies s)))"

text \<open>Modelled from the spec: \<open>storage.getUser\<close>, \<open>storage.getUserByEmail\<close> and
  \<open>storage.getCompanyById\<close>, which are missing; lookups by a unique key.\<close>

definition mem_getUser :: "string \<Rightarrow> store \<Rightarrow> exn + user option" where
  "mem_getUser ident s = Inr (find (\<lambda>u. u_id u = ident) (st_users s))"

definition mem_getUserByEmail :: "string \<Rightarrow> store \<Rightarrow> exn + user option" where
  "mem_getUserByEmail email s = Inr (find (\<lambda>u. u_email u = email) (st_users s))"

definition mem_getCompanyById :: "string \<Rightarrow> store \<Rightarrow> exn + company option" where
  "mem_getCompanyById ident s = Inr (find (\<lambda>c. c_id c = ident) (st_companies s))"

text \<open>An identifier that is given collides with a company that has the same one.\<close>

definition id_collides :: "string option \<Rightarrow> string option list \<Rightarrow> bool" where
  "id_collides v taken = (truthy_str v \<and> v \<in> set taken)"

text \<open>Modelled from the spec: \<open>storage.registerCompany\<close>, which is missing; it fails
  "when email or tax/personal ID already exists", else the three rows are created together.\<close>

definition mem_registerCompany :: "jsobject \<Rightarrow> store \<Rightarrow> exn + ((company \<times> user) \<times> store)" where
  "mem_registerCompany d s =
     (if find (\<lambda>u. u_email u = str_field d ''email'') (st_users s) \<noteq> None then
        Inl (Error emailTaken None)
      else if id_collides (opt_str_field d ''ruc'') (map c_ruc (st_companies s))
              \<or> id_collides (opt_str_field d ''cedula'') (map c_cedula (st_companies s)) then
        Inl (Error ''duplicate key value violates unique constraint'' (Some ''23505''))
      else
        let c = \<lparr>c_id = fresh_id ''company-'' (length (st_companies s)),
                 c_name = str_field d ''name'', c_description = None,
                 c_plan = str_field d ''plan'', c_maxUsers = 0, c_maxAssets = 0,
                 c_isActive = True, c_ruc = opt_str_field d ''ruc'',
                 c_cedula = opt_str_field d ''cedula'',
                 c_address = opt_str_field d ''address'',
                 c_phone = opt_str_field d ''phone'', c_email = opt_str_field d ''email'',
                 c_createdAt = st_clock s, c_updatedAt = st_clock s\<rparr>;
            u = \<lparr>u_id = fresh_id ''user-'' (length (st_users s)),
                 u_email = str_field d ''email'',
                 u_passwordHash = str_field d ''passwordHash'',
                 u_firstName = str_field d ''firstName'',
                 u_lastName = str_field d ''lastName'', u_profileImageUrl = None,
                 u_role = ''manager_owner'', u_createdAt = st_clock s,
                 u_updatedAt = st_clock s\<rparr>;
            uc = \<lparr>uc_id = fresh_id ''member-'' (length (st_userCompanies s)),
                  uc_userId = u_id u, uc_companyId = c_id c, uc_role = ''manager_owner'',
                  uc_createdAt = st_clock s\<rparr>
        in Inr ((c, u),
                s\<lparr>st_users := st_users s @ [u], st_companies := st_companies s @ [c],
                  st_userCompanies := st_userCompanies s @ [uc]\<rparr>))"

definition mem_storage :: "store storage" where
  "mem_storage =
     \<lparr>registerCompany = mem_registerCompany,
      getUserByEmail = mem_getUserByEmail,
      getUser = mem_getUser,
      getUserCompanies = mem_getUserCompanies,
      getCompanyById = mem_getCompanyById,
      getAssetsByCompany = mem_getAssetsByCompany,
      createAsset = mem_createAsset,
      logActivity = mem_logActivity\<rparr>"

section \<open>Concrete inputs\<close>

text \<open>
  Stand-ins for the outside functions, to run the handlers on concrete
  inputs: a digest that tags the password, a signature that joins the secret
  with the subject and the expiry, an e-mail check that looks for the at
  sign, a constant timestamp text.
\<close>

definition opt_text :: "string option \<Rightarrow> string" where
  "opt_text v = (case v of None \<Rightarrow> ''-'' | Some x \<Rightarrow> x)"

definition demo_lib :: lib where
  "demo_lib =
     \<lparr>sha256hex = (\<lambda>password. ''sha256:'' @ password),
      hs256 = (\<lambda>secret claims.
                 secret @ ''/'' @ opt_text (p_userId claims) @ ''/'' @ opt_text (p_role claims)),
      isEmail = (\<lambda>x. CHR ''@'' \<in> set x),
      toISOString = (\<lambda>t. ''2025-01-01T00:00:00.000Z'')\<rparr>"

definition demo_env :: env where
  "demo_env = \<lparr>JWT_SECRET = None, NODE_ENV = Some ''development''\<rparr>"

definition alice :: user where
  "alice =
     \<lparr>u_id = ''u1'', u_email = ''alice@acme.ec'', u_passwordHash = ''sha256:secret1'',
      u_firstName = ''Alice'', u_lastName = ''Mora'', u_profileImageUrl = None,
      u_role = ''manager_owner'', u_createdAt = 0, u_updatedAt = 0\<rparr>"

definition root :: user where
  "root =
     \<lparr>u_id = ''u0'', u_email = ''root@techassets.ec'', u_passwordHash = ''sha256:toor00'',
      u_firstName = ''Root'', u_lastName = ''Admin'', u_profileImageUrl = None,
      u_role = ''super_admin'', u_createdAt = 0, u_updatedAt = 0\<rparr>"

definition demo_company :: "string \<Rightarrow> string \<Rightarrow> company" where
  "demo_company ident nm =
     \<lparr>c_id = ident, c_name = nm, c_description = None, c_plan = ''pyme'',
      c_maxUsers = 0, c_maxAssets = 0, c_isActive = True, c_ruc = None,
      c_cedula = None, c_address = None, c_phone = None, c_email = None,
      c_createdAt = 0, c_updatedAt = 0\<rparr>"

definition globex_erp :: asset where
  "globex_erp = blank_asset\<lparr>a_id := ''a2'', a_companyId := ''c2'', a_name := ''Globex ERP''\<rparr>"

text \<open>Alice belongs to company \<open>c1\<close> only; the one asset belongs to company \<open>c2\<close>.\<close>

definition demo_store :: store where
  "demo_store =
     \<lparr>st_users = [root, alice],
      st_companies = [demo_company ''c1'' ''Acme'', demo_company ''c2'' ''Globex''],
      st_userCompanies =
        [\<lparr>uc_id = ''m1'', uc_userId = ''u1'', uc_companyId = ''c1'',
          uc_role = ''manager_owner'', uc_createdAt = 0\<rparr>],
      st_assets = [globex_erp],
      st_activityLog = [],
      st_clock = 5000\<rparr>"

definition empty_store :: store where
  "empty_store =
     \<lparr>st_users = [], st_companies = [], st_userCompanies = [], st_assets = [],
      st_activityLog = [], st_clock = 5000\<rparr>"

text \<open>The claims of a token that a user was issued at second 1, as the middleware decodes it.\<close>

definition session_of :: "user \<Rightarrow> payload" where
  "session_of u =
     \<lparr>p_id = None, p_userId = Some (u_id u), p_email = Some (u_email u),
      p_firstName = Some (u_firstName u), p_lastName = Some (u_lastName u),
      p_role = Some (u_role u), p_supportMode = None, p_iat = Some 1,
      p_exp = Some (1 + sevenDays), p_other = []\<rparr>"

definition request_of :: "user \<Rightarrow> jsobject \<Rightarrow> request" where
  "request_of u body = \<lparr>req_user = Some (session_of u), req_body = body\<rparr>"

text \<open>A new laptop, with a company and an assignee that the caller made up.\<close>

definition laptop_body :: jsobject where
  "laptop_body =
     [''name'' \<mapsto> JStr ''Laptop'', ''type'' \<mapsto> JStr ''physical'',
      ''companyId'' \<mapsto> JStr ''c2'', ''assignedTo'' \<mapsto> JStr ''u0'',
      ''monthlyCost'' \<mapsto> JNum 10]"

text \<open>A registration on plan \<open>pyme\<close> that carries neither \<open>ruc\<close> nor \<open>cedula\<close>.\<close>

definition pyme_without_ruc :: jsobject where
  "pyme_without_ruc =
     [''name'' \<mapsto> JStr ''Acme'', ''plan'' \<mapsto> JStr ''pyme'',
      ''address'' \<mapsto> JStr ''Quito'', ''phone'' \<mapsto> JStr ''0999999999'',
      ''email'' \<mapsto> JStr ''bob@acme.ec'', ''firstName'' \<mapsto> JStr ''Bob'',
      ''lastName'' \<mapsto> JStr ''Paz'', ''password'' \<mapsto> JStr ''secret1'',
      ''confirmPassword'' \<mapsto> JStr ''secret1'']"

definition login_body :: "string \<Rightarrow> string \<Rightarrow> jsobject" where
  "login_body email password = [''email'' \<mapsto> JStr email, ''password'' \<mapsto> JStr password]"

text \<open>The in-memory store with an activity log that cannot be written.\<close>

definition log_down_storage :: "store storage" where
  "log_down_storage =
     mem_storage\<lparr>logActivity := (\<lambda>entry s. Inl (Error ''activity log unavailable'' None))\<rparr>"

text \<open>The claims of Alice's session with a \<open>nbf\<close> at second 9000.\<close>

definition postdated_session :: payload where
  "postdated_session = (session_of alice)\<lparr>p_other := [(''nbf'', JNum 9000)]\<rparr>"

section \<open>Properties\<close>

lemma withDate_simps:
  "withDate [] = []"
  "withDate ((n, None) # xs) = withDate xs"
  "withDate ((n, Some t) # xs) = \<lparr>item_name = n, item_date = t\<rparr> # withDate xs"
  by (simp_all add: withDate_def)

lemma expired_count:
  "length (filter (\<lambda>item. item_date item < now) (withDate xs))
   = length (filter (\<lambda>d. spec_fieldStatus now d = Expired) (map snd xs))"
proof (induction xs)
  case Nil
  show ?case by (simp add: withDate_simps)
next
  case (Cons x xs)
  obtain n d where x: "x = (n, d)" by (cases x)
  show ?case
  proof (cases d)
    case None
    with Cons x show ?thesis by (simp add: withDate_simps spec_fieldStatus_def)
  next
    case (Some t)
    with Cons x show ?thesis by (simp add: withDate_simps spec_fieldStatus_def)
  qed
qed

lemma expiring_count:
  "length (filter (\<lambda>item. item_date item \<ge> now \<and> item_date item \<le> now + thirtyDays)
      (withDate xs))
   = length (filter (\<lambda>d. spec_fieldStatus now d = ExpiringSoon) (map snd xs))"
proof (induction xs)
  case Nil
  show ?case by (simp add: withDate_simps)
next
  case (Cons x xs)
  obtain n d where x: "x = (n, d)" by (cases x)
  show ?case
  proof (cases d)
    case None
    with Cons x show ?thesis by (simp add: withDate_simps spec_fieldStatus_def)
  next
    case (Some t)
    with Cons x show ?thesis
      by (simp add: withDate_simps spec_fieldStatus_def)
  qed
qed

lemma mem_iff_count: "x \<in> set xs \<longleftrightarrow> 0 < length (filter (\<lambda>y. y = x) xs)"
  by (induction xs) auto

lemma status_count:
  "length (filter (\<lambda>d. spec_fieldStatus now d = st) ds)
   = length (filter (\<lambda>y. y = st) (map (spec_fieldStatus now) ds))"
  by (induction ds) auto

subsection \<open>C4: expiration status\<close>

text \<open>
  C4, as stated, at a concrete asset: the warranty of the asset ran out one
  millisecond before the reference time and no other date is set. The
  specification's status over its five tracked fields is expired, while
  \<open>getExpiryWarning\<close> reports nothing: it never reads \<open>warrantyExpiry\<close>.
\<close>

theorem warranty_not_aggregated:
  "spec_expirationStatus 1000 (blank_asset\<lparr>a_warrantyExpiry := Some 999\<rparr>) = Expired
   \<and> getExpiryWarning 1000 1000 (blank_asset\<lparr>a_warrantyExpiry := Some 999\<rparr>) = None"
  by (simp add: spec_expirationStatus_def spec_aggregate_def spec_fieldStatus_def
      spec_trackedFields_def blank_asset_def getExpiryWarning_def expiries_def withDate_simps)

text \<open>
  C4, amended: over the four infrastructure dates (domain, SSL, hosting,
  server) and one reference time, \<open>getExpiryWarning\<close> reports the
  specification's aggregate status: expired if a date is before the
  reference time, else expiring if a date lies in the closed window of
  thirty days from the reference time, else nothing; its count is the number
  of dates with the reported status.
\<close>

theorem getExpiryWarning_aggregate:
  "warning_status (getExpiryWarning ref ref app)
     = spec_aggregate (map (spec_fieldStatus ref) (infrastructureFields app))
   \<and> (case getExpiryWarning ref ref app of
        None \<Rightarrow> True
      | Some w \<Rightarrow>
          w_count w = length (filter (\<lambda>d. spec_fieldStatus ref d = warning_status (Some w))
                                (infrastructureFields app)))"
proof -
  let ?xs = "[(''Dominio'', a_domainExpiry app), (''SSL'', a_sslExpiry app),
              (''Hosting'', a_hostingExpiry app), (''Servidor'', a_serverExpiry app)]"
  let ?ds = "infrastructureFields app"
  let ?E = "length (filter (\<lambda>item. item_date item < ref) (expiries app))"
  let ?S = "length (filter (\<lambda>item. item_date item \<ge> ref
                \<and> item_date item \<le> ref + thirtyDays) (expiries app))"
  have fields: "?ds = map snd ?xs"
    by (simp add: infrastructureFields_def)
  have e: "expiries app = withDate ?xs" by (simp add: expiries_def)
  have E: "?E = length (filter (\<lambda>d. spec_fieldStatus ref d = Expired) ?ds)"
    unfolding e fields by (rule expired_count)
  have S: "?S = length (filter (\<lambda>d. spec_fieldStatus ref d = ExpiringSoon) ?ds)"
    unfolding e fields by (rule expiring_count)
  have memE: "Expired \<in> set (map (spec_fieldStatus ref) ?ds) \<longleftrightarrow> 0 < ?E"
    unfolding E by (simp only: mem_iff_count status_count)
  have memS: "ExpiringSoon \<in> set (map (spec_fieldStatus ref) ?ds) \<longleftrightarrow> 0 < ?S"
    unfolding S by (simp only: mem_iff_count status_count)
  consider (expired) "0 < ?E" | (soon) "?E = 0" "0 < ?S" | (none) "?E = 0" "?S = 0"
    by linarith
  then show ?thesis
  proof cases
    case expired
    then have g: "getExpiryWarning ref ref app =
        Some \<lparr>w_type = ''expired'', w_count = ?E,
              w_items = filter (\<lambda>item. item_date item < ref) (expiries app)\<rparr>"
      by (simp add: getExpiryWarning_def Let_def thirtyDays_def)
    show ?thesis
      unfolding g using expired memE
      by (simp add: warning_status_def spec_aggregate_def E del: length_greater_0_conv)
  next
    case soon
    then have g: "getExpiryWarning ref ref app =
        Some \<lparr>w_type = ''expiring'', w_count = ?S,
              w_items = filter (\<lambda>item. item_date item \<ge> ref
                \<and> item_date item \<le> ref + thirtyDays) (expiries app)\<rparr>"
      by (simp add: getExpiryWarning_def Let_def thirtyDays_def)
    from soon memE have nE: "Expired \<notin> set (map (spec_fieldStatus ref) ?ds)" by simp
    show ?thesis
      unfolding g using soon memS nE
      by (simp add: warning_status_def spec_aggregate_def S del: length_greater_0_conv)
  next
    case none
    then have g: "getExpiryWarning ref ref app = None"
      by (simp add: getExpiryWarning_def Let_def thirtyDays_def)
    from none memE have nE: "Expired \<notin> set (map (spec_fieldStatus ref) ?ds)" by simp
    from none memS have nS: "ExpiringSoon \<notin> set (map (spec_fieldStatus ref) ?ds)" by simp
    show ?thesis
      unfolding g using nE nS
      by (simp add: warning_status_def spec_aggregate_def)
  qed
qed

theorem getExpiryWarning_aggregate_witness:
  "warning_status
     (getExpiryWarning 1000 1000
        (blank_asset\<lparr>a_domainExpiry := Some 5, a_sslExpiry := Some 2000\<rparr>)) = Expired
   \<and> warning_status
     (getExpiryWarning 1000 1000
        (blank_asset\<lparr>a_serverExpiry := Some (1000 + thirtyDays)\<rparr>)) = ExpiringSoon"
  using getExpiryWarning_aggregate
          [of 1000 "blank_asset\<lparr>a_domainExpiry := Some 5, a_sslExpiry := Some 2000\<rparr>"]
        getExpiryWarning_aggregate
          [of 1000 "blank_asset\<lparr>a_serverExpiry := Some (1000 + thirtyDays)\<rparr>"]
  by (simp add: spec_aggregate_def spec_fieldStatus_def infrastructureFields_def
      blank_asset_def thirtyDays_def)

subsection \<open>C5: monthly cost total\<close>


subsection \<open>Helper facts\<close>

lemma finalPayload_no_exp:
  "p_exp (finalPayload pl) = None" "p_iat (finalPayload pl) = None"
  "nbf_claim (finalPayload pl) = None"
  by (simp_all add: finalPayload_def nbf_claim_def)

lemma generateToken_eq:
  "generateToken l e now pl =
     Inr (Signed ((finalPayload pl)\<lparr>p_iat := Some (now div 1000),
                                   p_exp := Some (now div 1000 + sevenDays)\<rparr>)
            (hs256 l (jwtSecret e)
               ((finalPayload pl)\<lparr>p_iat := Some (now div 1000),
                                  p_exp := Some (now div 1000 + sevenDays)\<rparr>)))"
  by (simp add: generateToken_def jwt_sign_def finalPayload_no_exp Let_def)

lemma protected_authenticated:
  assumes "req_user req = Some u" "p_userId u = Some userId" "userId \<noteq> []"
  shows "protected req s handler = handler u userId"
  using assms by (simp add: protected_def isAuthenticated_def truthy_str_def)

lemma isAuthenticatedE:
  assumes "isAuthenticated (req_user req)"
  obtains u userId where "req_user req = Some u" "p_userId u = Some userId" "userId \<noteq> []"
  using assms by (auto simp add: isAuthenticated_def truthy_str_def split: option.splits)

lemma post_assets_unauthenticated:
  assumes "\<not> isAuthenticated (req_user req)"
  shows "post_assets st l req s = (unauthorized, s)"
  using assms by (simp add: post_assets_def protected_def)

lemma parse_ok:
  "zod_issues em schema b = [] \<Longrightarrow> zod_object_parse em schema b = Inr (zod_strip schema b)"
  by (simp add: zod_object_parse_def)

lemma login_fields:
  "str_field (zod_strip loginSchema b) ''email'' = str_field b ''email''"
  "str_field (zod_strip loginSchema b) ''password'' = str_field b ''password''"
  by (simp_all add: str_field_def zod_strip_def loginSchema_def)

lemma validated_is_stripped:
  "zod_object_parse em schema b = Inr v \<Longrightarrow> v = zod_strip schema b"
  by (simp add: zod_object_parse_def Let_def split: if_splits)

lemma dataToValidate_overrides:
  "dataToValidate (b(''companyId'' := v)) cid = dataToValidate b cid"
  by (simp add: dataToValidate_def)

lemma dataToInsert_fields:
  "dataToInsert (zod_strip insertAssetSchema (dataToValidate b cid)) userId ''companyId''
     = Some (JStr cid)"
  "dataToInsert (zod_strip insertAssetSchema (dataToValidate b cid)) userId ''assignedTo''
     = Some (JStr userId)"
  by (simp_all add: dataToInsert_def zod_strip_def dataToValidate_def insertAssetSchema_def)

lemma demo_post:
  "post_assets mem_storage demo_lib (request_of alice laptop_body) demo_store =
     (json_status 200
        (AssetJson (blank_asset\<lparr>a_id := ''asset-i'', a_companyId := ''c1'',
           a_name := ''Laptop'', a_type := ''physical'', a_assignedTo := Some ''u1'',
           a_monthlyCost := Some 10, a_createdAt := 5000, a_updatedAt := 5000\<rparr>)),
      demo_store\<lparr>st_assets := [globex_erp,
          blank_asset\<lparr>a_id := ''asset-i'', a_companyId := ''c1'',
           a_name := ''Laptop'', a_type := ''physical'', a_assignedTo := Some ''u1'',
           a_monthlyCost := Some 10, a_createdAt := 5000, a_updatedAt := 5000\<rparr>],
        st_activityLog := [\<lparr>al_companyId = ''c1'', al_userId = ''u1'',
           al_action = ''created'', al_entityType = ''asset'', al_entityId = Some ''asset-i'',
           al_entityName = Some ''Laptop''\<rparr>]\<rparr>)"
  by (simp add: post_assets_def protected_def isAuthenticated_def truthy_str_def
      request_of_def session_of_def alice_def post_assets_handler_def mem_storage_def
      mem_getUserCompanies_def demo_store_def zod_object_parse_def zod_issues_def
      insertAssetSchema_def dataToValidate_def laptop_body_def zod_strip_def
      dataToInsert_def mem_createAsset_def asset_row_def mem_logActivity_def
      json_status_def created_activity_def fresh_id_def str_field_def opt_str_field_def
      num_field_def date_field_def blank_asset_def globex_erp_def demo_lib_def Let_def)

lemma post_assets_catch_not_200: "res_status (post_assets_catch error) \<noteq> 200"
  by (cases error) (simp_all add: post_assets_catch_def json_status_def)

lemma demo_post_log_down:
  "post_assets log_down_storage demo_lib (request_of alice laptop_body) demo_store =
     (json_status 500 (Message ''Error al crear el activo''),
      demo_store\<lparr>st_assets := [globex_erp,
          blank_asset\<lparr>a_id := ''asset-i'', a_companyId := ''c1'',
           a_name := ''Laptop'', a_type := ''physical'', a_assignedTo := Some ''u1'',
           a_monthlyCost := Some 10, a_createdAt := 5000, a_updatedAt := 5000\<rparr>]\<rparr>)"
  by (simp add: post_assets_def protected_def isAuthenticated_def truthy_str_def
      request_of_def session_of_def alice_def post_assets_handler_def log_down_storage_def
      mem_storage_def mem_getUserCompanies_def demo_store_def zod_object_parse_def
      zod_issues_def insertAssetSchema_def dataToValidate_def laptop_body_def zod_strip_def
      dataToInsert_def mem_createAsset_def asset_row_def post_assets_catch_def
      json_status_def created_activity_def fresh_id_def str_field_def opt_str_field_def
      num_field_def date_field_def blank_asset_def globex_erp_def demo_lib_def Let_def)

lemma demo_post_invalid:
  "post_assets mem_storage demo_lib (request_of alice Map.empty) demo_store =
     (json_status 400
        (MessageErrors (''Error de validaci'' @ [oacute] @ ''n en los datos del activo'')
           [''name'', ''type'']),
      demo_store)"
  by (simp add: post_assets_def protected_def isAuthenticated_def truthy_str_def
      request_of_def session_of_def alice_def post_assets_handler_def mem_storage_def
      mem_getUserCompanies_def demo_store_def zod_object_parse_def zod_issues_def
      insertAssetSchema_def dataToValidate_def post_assets_catch_def json_status_def
      demo_lib_def Let_def)

lemma mem_log_appends:
  "logActivity mem_storage entry x = Inr y \<Longrightarrow> st_activityLog y = st_activityLog x @ [entry]"
  by (auto simp add: mem_storage_def mem_logActivity_def)

lemma mem_insert_keeps_log:
  "createAsset mem_storage d x = Inr (a, y) \<Longrightarrow> st_activityLog y = st_activityLog x"
  by (auto simp add: mem_storage_def mem_createAsset_def Let_def)

lemma demo_support:
  "support_access mem_storage demo_lib demo_env 5000000 ''c2'' (request_of root Map.empty)
     demo_store =
     (\<lparr>res_status = 200,
       res_body = SupportGranted ''Support access granted'' (demo_company ''c2'' ''Globex'')
                    True
                    ((session_of root)
                       \<lparr>p_supportMode := Some \<lparr>sm_companyId = ''c2'', sm_adminId = ''u0'',
                          sm_startTime = ''2025-01-01T00:00:00.000Z''\<rparr>\<rparr>),
       res_cookie =
         SetJwt (Signed
                   ((session_of root)
                      \<lparr>p_supportMode := Some \<lparr>sm_companyId = ''c2'', sm_adminId = ''u0'',
                          sm_startTime = ''2025-01-01T00:00:00.000Z''\<rparr>,
                       p_iat := Some 5000, p_exp := Some (5000 + sevenDays)\<rparr>)
                   ''dev-secret-change-in-production/u0/super_admin'')\<rparr>,
      demo_store\<lparr>st_activityLog :=
        [\<lparr>al_companyId = ''c2'', al_userId = ''u0'', al_action = ''accessed'',
          al_entityType = ''company'', al_entityId = Some ''c2'',
          al_entityName = Some ''Support access to Globex''\<rparr>]\<rparr>)"
  by (simp add: support_access_def protected_def isAuthenticated_def truthy_str_def
      request_of_def session_of_def root_def alice_def support_access_handler_def
      mem_storage_def mem_getUser_def mem_getCompanyById_def demo_store_def
      demo_company_def not_super_admin_def generateToken_eq finalPayload_def js_or_def
      jwtSecret_def demo_env_def demo_lib_def opt_text_def mem_logActivity_def
      json_status_def Let_def)

subsection \<open>C1: reading the assets of a company\<close>

text \<open>
  C1 at a failing input: Alice is authenticated and her only membership is
  in company \<open>c1\<close>; she asks for the assets of company \<open>c2\<close>. The claim
  asks for 403 and no rows; the route answers 200 with the asset of \<open>c2\<close>.
  The file's own header promises isolation of the data by company, and the
  sibling POST /api/assets does consult the caller's memberships.
\<close>

theorem get_assets_other_company:
  "map uc_companyId
     (case getUserCompanies mem_storage ''u1'' demo_store of
        Inr (Some ucs) \<Rightarrow> ucs | _ \<Rightarrow> []) = [''c1'']
   \<and> p_userId (session_of alice) = Some ''u1''
   \<and> get_assets mem_storage ''c2'' (request_of alice Map.empty) demo_store
       = (json_status 200 (AssetsJson [globex_erp]), demo_store)"
  by (simp add: mem_storage_def mem_getUserCompanies_def demo_store_def get_assets_def
      protected_def isAuthenticated_def truthy_str_def request_of_def session_of_def
      alice_def get_assets_handler_def mem_getAssetsByCompany_def globex_erp_def
      blank_asset_def)

text \<open>
  The extent of the defect: the route reads the caller only through
  \<open>isAuthenticated\<close>, so every authenticated caller gets what the store
  returns for the \<open>companyId\<close> of the path, and no answer is 403.
\<close>

lemma get_assets_ignores_membership:
  "get_assets st companyId req s =
     (if isAuthenticated (req_user req) then
        (case getAssetsByCompany st companyId s of
           Inr assets \<Rightarrow> (json_status 200 (AssetsJson assets), s)
         | Inl error \<Rightarrow> (json_status 500 (Message ''Failed to fetch assets''), s))
      else (unauthorized, s))
   \<and> res_status (fst (get_assets st companyId req s)) \<noteq> 403"
proof (cases "isAuthenticated (req_user req)")
  case True
  then obtain u userId where
    "req_user req = Some u" "p_userId u = Some userId" "userId \<noteq> []"
    by (rule isAuthenticatedE)
  then have "get_assets st companyId req s = get_assets_handler st companyId s"
    by (simp add: get_assets_def protected_authenticated)
  with True show ?thesis
    by (simp add: get_assets_handler_def json_status_def split: sum.splits)
next
  case False
  then show ?thesis
    by (simp add: get_assets_def protected_def unauthorized_def json_status_def)
qed

subsection \<open>C2: the identifier of the plan at registration\<close>

text \<open>
  C2 at a failing input: a registration on plan \<open>pyme\<close> without \<open>ruc\<close>. The
  schema raises no issue, the register route answers 200 and the company is
  stored without an identifier; the form's \<open>onSubmit\<close> refuses the same
  data.
\<close>

theorem register_pyme_without_ruc:
  "zod_issues (isEmail demo_lib) companyRegistrationFields pyme_without_ruc = []
   \<and> res_status
        (fst (register_handler mem_storage demo_lib demo_env 5000 pyme_without_ruc empty_store))
       = 200
   \<and> map (\<lambda>c. (c_name c, c_plan c, c_ruc c, c_cedula c))
        (st_companies
           (snd (register_handler mem_storage demo_lib demo_env 5000 pyme_without_ruc
                   empty_store)))
       = [(''Acme'', ''pyme'', None, None)]
   \<and> onSubmit pyme_without_ruc = Toast ''Error'' ''El RUC es obligatorio para empresas PyME.''"
  by (simp add: zod_issues_def companyRegistrationFields_def pyme_without_ruc_def
      idRule_def demo_lib_def register_handler_def companyRegistrationSchema_parse_def
      zod_object_parse_def zod_strip_def str_field_def opt_str_field_def hash_def
      mem_storage_def mem_registerCompany_def empty_store_def id_collides_def
      truthy_str_def generateToken_def jwt_sign_def finalPayload_def user_payload_def
      js_or_def fresh_id_def onSubmit_def nbf_claim_def Let_def)

text \<open>
  The form does enforce the rule: data that passed the schema and that
  \<open>onSubmit\<close> sends carries the thirteen digits of a RUC on plan \<open>pyme\<close>
  and the ten digits of a cedula on plan \<open>professional\<close>.
\<close>

lemma onSubmit_requires_identifier:
  assumes valid: "zod_issues em companyRegistrationFields data = []"
      and sent: "onSubmit data = Mutate data'"
  shows "(str_field data ''plan'' = ''pyme'' \<longrightarrow>
            (\<exists>r. data ''ruc'' = Some (JStr r) \<and> digits_exactly 13 r))
       \<and> (str_field data ''plan'' = ''professional'' \<longrightarrow>
            (\<exists>c. data ''cedula'' = Some (JStr c) \<and> digits_exactly 10 c))"
proof -
  from valid have ruc: "accepts em (ZRefine (ZOptional (ZString 0)) (idRule 13)) (data ''ruc'')"
    and ced: "accepts em (ZRefine (ZOptional (ZString 0)) (idRule 10)) (data ''cedula'')"
    by (simp_all add: zod_issues_def companyRegistrationFields_def split: if_splits)
  from sent have
    a: "str_field data ''plan'' = ''pyme'' \<longrightarrow> truthy_str (opt_str_field data ''ruc'')"
    and b: "str_field data ''plan'' = ''professional'' \<longrightarrow>
              truthy_str (opt_str_field data ''cedula'')"
    by (simp_all add: onSubmit_def split: if_splits)
  from ruc a have "str_field data ''plan'' = ''pyme'' \<longrightarrow>
            (\<exists>r. data ''ruc'' = Some (JStr r) \<and> digits_exactly 13 r)"
    by (auto simp add: idRule_def truthy_str_def opt_str_field_def
        split: option.splits json.splits)
  moreover
  from ced b have "str_field data ''plan'' = ''professional'' \<longrightarrow>
            (\<exists>c. data ''cedula'' = Some (JStr c) \<and> digits_exactly 10 c)"
    by (auto simp add: idRule_def truthy_str_def opt_str_field_def
        split: option.splits json.splits)
  ultimately show ?thesis by simp
qed

text \<open>
  A body that the schema rejects, here a RUC of three digits, is answered 500
  by the route's \<open>catch\<close>, and nothing is stored.
\<close>

lemma register_short_ruc:
  "register_handler mem_storage demo_lib demo_env 5000
     (pyme_without_ruc(''ruc'' \<mapsto> JStr ''123'')) empty_store
   = (json_status 500 (Message ''Error al registrar empresa''), empty_store)"
  by (simp add: zod_issues_def companyRegistrationFields_def pyme_without_ruc_def
      idRule_def digits_exactly_def demo_lib_def register_handler_def
      companyRegistrationSchema_parse_def zod_object_parse_def register_catch_def
      json_status_def Let_def)

subsection \<open>C3: failed logins\<close>

text \<open>
  C3, as stated, at a concrete pair: an unknown e-mail with an empty password
  is answered 500 (the body fails the login schema), a known e-mail with a
  wrong password 401.
\<close>

theorem login_empty_password:
  "getUserByEmail mem_storage ''ghost@acme.ec'' demo_store = Inr None
   \<and> login_handler mem_storage demo_lib demo_env 5000 (login_body ''ghost@acme.ec'' '''')
        demo_store = (json_status 500 (Message loginError), demo_store)
   \<and> getUserByEmail mem_storage ''alice@acme.ec'' demo_store = Inr (Some alice)
   \<and> \<not> verify demo_lib ''wrong'' (u_passwordHash alice)
   \<and> login_handler mem_storage demo_lib demo_env 5000 (login_body ''alice@acme.ec'' ''wrong'')
        demo_store = (json_status 401 (Message invalidCredentials), demo_store)"
  by (simp add: mem_storage_def mem_getUserByEmail_def demo_store_def alice_def root_def
      login_handler_def zod_object_parse_def zod_issues_def loginSchema_def login_body_def
      demo_lib_def verify_def str_field_def zod_strip_def)

text \<open>
  C3, amended: for every pair of failed login attempts whose bodies pass the
  login schema, one with an e-mail that the store does not know and one with
  a known e-mail and a wrong password, both answers are status 401 with the
  same message, and the store is unchanged.
\<close>

theorem login_failures_indistinguishable:
  assumes shape1: "zod_issues (isEmail l) loginSchema b1 = []"
      and shape2: "zod_issues (isEmail l) loginSchema b2 = []"
      and unknown: "getUserByEmail st (str_field b1 ''email'') s = Inr None"
      and known: "getUserByEmail st (str_field b2 ''email'') s = Inr (Some usr)"
      and wrong: "\<not> verify l (str_field b2 ''password'') (u_passwordHash usr)"
  shows "login_handler st l e now b1 s = (json_status 401 (Message invalidCredentials), s)
       \<and> login_handler st l e now b2 s = (json_status 401 (Message invalidCredentials), s)"
proof
  show "login_handler st l e now b1 s = (json_status 401 (Message invalidCredentials), s)"
    using unknown by (simp add: login_handler_def parse_ok [OF shape1] login_fields)
  show "login_handler st l e now b2 s = (json_status 401 (Message invalidCredentials), s)"
    using known wrong by (simp add: login_handler_def parse_ok [OF shape2] login_fields)
qed

theorem login_failures_indistinguishable_witness:
  "login_handler mem_storage demo_lib demo_env 5000 (login_body ''ghost@acme.ec'' ''guess1'')
     demo_store = (json_status 401 (Message invalidCredentials), demo_store)
   \<and> login_handler mem_storage demo_lib demo_env 5000 (login_body ''alice@acme.ec'' ''guess1'')
     demo_store = (json_status 401 (Message invalidCredentials), demo_store)"
proof -
  have s1: "zod_issues (isEmail demo_lib) loginSchema (login_body ''ghost@acme.ec'' ''guess1'')
              = []"
    by (simp add: zod_issues_def loginSchema_def login_body_def demo_lib_def)
  have s2: "zod_issues (isEmail demo_lib) loginSchema (login_body ''alice@acme.ec'' ''guess1'')
              = []"
    by (simp add: zod_issues_def loginSchema_def login_body_def demo_lib_def)
  have u: "getUserByEmail mem_storage
             (str_field (login_body ''ghost@acme.ec'' ''guess1'') ''email'') demo_store
           = Inr None"
    by (simp add: mem_storage_def mem_getUserByEmail_def demo_store_def alice_def root_def
        login_body_def str_field_def)
  have k: "getUserByEmail mem_storage
             (str_field (login_body ''alice@acme.ec'' ''guess1'') ''email'') demo_store
           = Inr (Some alice)"
    by (simp add: mem_storage_def mem_getUserByEmail_def demo_store_def alice_def root_def
        login_body_def str_field_def)
  have w: "\<not> verify demo_lib (str_field (login_body ''alice@acme.ec'' ''guess1'') ''password'')
               (u_passwordHash alice)"
    by (simp add: verify_def demo_lib_def alice_def login_body_def str_field_def)
  show ?thesis
    by (rule login_failures_indistinguishable [OF s1 s2 u k w])
qed

subsection \<open>C6: the activity log of an asset creation\<close>

text \<open>
  C6: let the store's \<open>logActivity\<close> append its record to the activity log
  and \<open>createAsset\<close> leave the log alone. When POST /api/assets answers 200,
  the asset of the answer was inserted first, then one record was logged on
  the store after the insert, with action \<open>created\<close> and the identifier and
  name of that asset, and the log has grown by exactly that record. With any
  other answer the log is as it was, and the store is untouched unless the
  asset was inserted and the log write itself threw.
\<close>

theorem post_assets_logs_once:
  assumes appends: "\<And>entry x y. logActivity st entry x = Inr y \<Longrightarrow> logOf y = logOf x @ [entry]"
      and insert_keeps: "\<And>d x a y. createAsset st d x = Inr (a, y) \<Longrightarrow> logOf y = logOf x"
      and run: "post_assets st l req s = (res, s')"
  shows "(res_status res = 200 \<longrightarrow>
            (\<exists>d a s1 entry.
               createAsset st d s = Inr (a, s1) \<and> logActivity st entry s1 = Inr s'
               \<and> res_body res = AssetJson a
               \<and> al_action entry = ''created'' \<and> al_entityType entry = ''asset''
               \<and> al_entityId entry = Some (a_id a) \<and> al_entityName entry = Some (a_name a)
               \<and> logOf s' = logOf s @ [entry]))
       \<and> (res_status res \<noteq> 200 \<longrightarrow>
            logOf s' = logOf s
            \<and> (s' = s
                \<or> (\<exists>d a entry err.
                      createAsset st d s = Inr (a, s') \<and> al_action entry = ''created''
                      \<and> al_entityId entry = Some (a_id a)
                      \<and> logActivity st entry s' = Inl err)))"
proof (cases "isAuthenticated (req_user req)")
  case False
  with run have "res = unauthorized" "s' = s"
    by (simp_all add: post_assets_unauthenticated)
  then show ?thesis by (simp add: unauthorized_def json_status_def)
next
  case True
  then obtain u userId where u: "req_user req = Some u" "p_userId u = Some userId" "userId \<noteq> []"
    by (auto simp add: isAuthenticated_def truthy_str_def split: option.splits)
  from run have h: "post_assets_handler st l userId (req_body req) s = (res, s')"
    by (simp add: post_assets_def protected_authenticated [OF u])
  show ?thesis
  proof (cases "getUserCompanies st userId s")
    case (Inl err)
    with h show ?thesis
      by (auto simp add: post_assets_handler_def post_assets_catch_def json_status_def
          split: exn.splits)
  next
    case (Inr ucs)
    show ?thesis
    proof (cases ucs)
      case None
      with Inr h show ?thesis by (auto simp add: post_assets_handler_def json_status_def)
    next
      case (Some xs)
      show ?thesis
      proof (cases xs)
        case Nil
        with Some Inr h show ?thesis
          by (auto simp add: post_assets_handler_def json_status_def)
      next
        case (Cons uc rest)
        let ?cid = "uc_companyId uc"
        let ?p = "zod_object_parse (isEmail l) insertAssetSchema
                    (dataToValidate (req_body req) ?cid)"
        show ?thesis
        proof (cases ?p)
          case (Inl err)
          with Cons Some Inr h show ?thesis
            by (auto simp add: post_assets_handler_def post_assets_catch_def json_status_def
                zod_object_parse_def Let_def split: if_splits)
        next
          case v: (Inr validated)
          let ?d = "dataToInsert validated userId"
          show ?thesis
          proof (cases "createAsset st ?d s")
            case (Inl err)
            with v Cons Some Inr h show ?thesis
              by (auto simp add: post_assets_handler_def post_assets_catch_def json_status_def
                  split: exn.splits)
          next
            case c: (Inr r)
            obtain a s1 where r: "r = (a, s1)" by (cases r)
            from c r have keep: "logOf s1 = logOf s" by (simp add: insert_keeps)
            show ?thesis
            proof (cases "logActivity st (created_activity ?cid userId a) s1")
              case (Inl err)
              with c r v Cons Some Inr h have "s' = s1" "res = post_assets_catch err"
                by (simp_all add: post_assets_handler_def)
              moreover
              from c r Inl have "\<exists>d a entry err.
                      createAsset st d s = Inr (a, s1) \<and> al_action entry = ''created''
                      \<and> al_entityId entry = Some (a_id a)
                      \<and> logActivity st entry s1 = Inl err"
                by (auto simp add: created_activity_def
                    intro!: exI [of _ ?d] exI [of _ a]
                            exI [of _ "created_activity ?cid userId a"])
              ultimately show ?thesis using keep
                by (auto simp add: post_assets_catch_def json_status_def split: exn.splits)
            next
              case lg: (Inr s2)
              with c r v Cons Some Inr h have e: "s' = s2" "res = json_status 200 (AssetJson a)"
                by (simp_all add: post_assets_handler_def)
              from lg have "logOf s2 = logOf s1 @ [created_activity ?cid userId a]"
                by (rule appends)
              with keep e lg c r show ?thesis
                by (auto simp add: json_status_def created_activity_def
                    intro!: exI [of _ ?d] exI [of _ a] exI [of _ s1]
                            exI [of _ "created_activity ?cid userId a"])
            qed
          qed
        qed
      qed
    qed
  qed
qed

theorem post_assets_logs_once_witness:
  "(\<exists>d a s1 entry.
      createAsset mem_storage d demo_store = Inr (a, s1)
      \<and> logActivity mem_storage entry s1 = Inr (snd (post_assets mem_storage demo_lib (request_of alice laptop_body) demo_store))
      \<and> res_body (fst (post_assets mem_storage demo_lib (request_of alice laptop_body) demo_store)) = AssetJson a
      \<and> al_action entry = ''created'' \<and> al_entityType entry = ''asset''
      \<and> al_entityId entry = Some (a_id a) \<and> al_entityName entry = Some (a_name a)
      \<and> st_activityLog (snd (post_assets mem_storage demo_lib (request_of alice laptop_body) demo_store)) = st_activityLog demo_store @ [entry])
   \<and> st_activityLog (snd (post_assets mem_storage demo_lib (request_of alice Map.empty) demo_store)) = st_activityLog demo_store"
proof (rule conjI)
  let ?ok = "(post_assets mem_storage demo_lib (request_of alice laptop_body) demo_store)"
  let ?bad = "(post_assets mem_storage demo_lib (request_of alice Map.empty) demo_store)"
  have ok: "res_status (fst ?ok) = 200"
    by (simp add: demo_post json_status_def)
  have bad: "res_status (fst ?bad) \<noteq> 200"
    by (simp add: demo_post_invalid json_status_def)
  show "\<exists>d a s1 entry.
      createAsset mem_storage d demo_store = Inr (a, s1)
      \<and> logActivity mem_storage entry s1 = Inr (snd ?ok)
      \<and> res_body (fst ?ok) = AssetJson a
      \<and> al_action entry = ''created'' \<and> al_entityType entry = ''asset''
      \<and> al_entityId entry = Some (a_id a) \<and> al_entityName entry = Some (a_name a)
      \<and> st_activityLog (snd ?ok) = st_activityLog demo_store @ [entry]"
  proof (rule post_assets_logs_once [of mem_storage st_activityLog demo_lib
        "request_of alice laptop_body" demo_store "fst ?ok" "snd ?ok",
        THEN conjunct1, THEN mp])
    show "\<And>entry x y. logActivity mem_storage entry x = Inr y
            \<Longrightarrow> st_activityLog y = st_activityLog x @ [entry]"
      by (rule mem_log_appends)
    show "\<And>d x a y. createAsset mem_storage d x = Inr (a, y)
            \<Longrightarrow> st_activityLog y = st_activityLog x"
      by (rule mem_insert_keeps_log)
    show "?ok = (fst ?ok, snd ?ok)" by simp
    show "res_status (fst ?ok) = 200" by (rule ok)
  qed
  show "st_activityLog (snd ?bad) = st_activityLog demo_store"
  proof (rule post_assets_logs_once [of mem_storage st_activityLog demo_lib
        "request_of alice Map.empty" demo_store "fst ?bad" "snd ?bad",
        THEN conjunct2, THEN mp, THEN conjunct1])
    show "\<And>entry x y. logActivity mem_storage entry x = Inr y
            \<Longrightarrow> st_activityLog y = st_activityLog x @ [entry]"
      by (rule mem_log_appends)
    show "\<And>d x a y. createAsset mem_storage d x = Inr (a, y)
            \<Longrightarrow> st_activityLog y = st_activityLog x"
      by (rule mem_insert_keeps_log)
    show "?bad = (fst ?bad, snd ?bad)" by simp
    show "res_status (fst ?bad) \<noteq> 200" by (rule bad)
  qed
qed

subsection \<open>C7: issuing and verifying a token\<close>

text \<open>
  C7: a token that \<open>generateToken\<close> issued for a payload verifies at any time
  before its seven days are over, in particular at once, and the decoded
  claims carry the role of the payload; the same claims under any other
  signature decode to \<open>null\<close>.
\<close>

theorem verify_after_generate:
  assumes "t div 1000 < now div 1000 + sevenDays"
  shows "\<exists>claims sig.
           generateToken l e now pl = Inr (Signed claims sig)
           \<and> verifyToken l e t (Signed claims sig) = Inr (Some claims)
           \<and> p_role claims = p_role pl
           \<and> (\<forall>sig'. sig' \<noteq> sig \<longrightarrow> verifyToken l e t (Signed claims sig') = Inr None)"
proof -
  let ?claims = "(finalPayload pl)\<lparr>p_iat := Some (now div 1000),
                                   p_exp := Some (now div 1000 + sevenDays)\<rparr>"
  let ?sig = "hs256 l (jwtSecret e) ?claims"
  have gen: "generateToken l e now pl = Inr (Signed ?claims ?sig)"
    by (rule generateToken_eq)
  have ok: "verifyToken l e t (Signed ?claims ?sig) = Inr (Some ?claims)"
    using assms
    by (simp add: verifyToken_def jwt_verify_def jwt_check_nbf_def jwt_check_exp_def
        nbf_claim_def finalPayload_def)
  have role: "p_role ?claims = p_role pl"
    by (simp add: finalPayload_def)
  have bad: "\<forall>sig'. sig' \<noteq> ?sig \<longrightarrow> verifyToken l e t (Signed ?claims sig') = Inr None"
    by (simp add: verifyToken_def jwt_verify_def)
  from gen ok role bad show ?thesis by blast
qed

theorem verify_after_generate_witness:
  "\<exists>claims sig.
     generateToken demo_lib demo_env 5000 (user_payload alice) = Inr (Signed claims sig)
     \<and> verifyToken demo_lib demo_env 5000 (Signed claims sig) = Inr (Some claims)
     \<and> p_role claims = Some ''manager_owner''
     \<and> verifyToken demo_lib demo_env 5000 (Signed claims (sig @ ''x'')) = Inr None"
proof -
  have h: "(5000::int) div 1000 < 5000 div 1000 + sevenDays"
    by (simp add: sevenDays_def)
  from verify_after_generate [OF h, of demo_lib demo_env "user_payload alice"]
  obtain claims sig where
    g: "generateToken demo_lib demo_env 5000 (user_payload alice) = Inr (Signed claims sig)"
    and v: "verifyToken demo_lib demo_env 5000 (Signed claims sig) = Inr (Some claims)"
    and r: "p_role claims = p_role (user_payload alice)"
    and t: "\<forall>sig'. sig' \<noteq> sig \<longrightarrow> verifyToken demo_lib demo_env 5000 (Signed claims sig') = Inr None"
    by blast
  have "sig @ ''x'' \<noteq> sig" by simp
  with t have "verifyToken demo_lib demo_env 5000 (Signed claims (sig @ ''x'')) = Inr None"
    by blast
  moreover have "p_role (user_payload alice) = Some ''manager_owner''"
    by (simp add: user_payload_def alice_def)
  ultimately show ?thesis using g v r by auto
qed

subsection \<open>C8: verification never throws\<close>

text \<open>
  C8: \<open>verifyToken\<close> returns for every input and never throws: it gives
  \<open>null\<close> exactly when \<open>jwt.verify\<close> throws, which it does for a malformed
  token, for a signature that does not match, for an expired token and for a
  token that is not yet valid; and it gives the decoded claims for a token
  with the right signature that has not expired and whose \<open>nbf\<close>, if it has
  one, has passed.
\<close>

theorem verifyToken_total:
  "(\<exists>r. verifyToken l e now tok = Inr r)
   \<and> verifyToken l e now tok =
       Inr (case jwt_verify l (jwtSecret e) now tok of
              Inr decoded \<Rightarrow> Some decoded | Inl error \<Rightarrow> None)
   \<and> verifyToken l e now (Malformed str) = Inr None
   \<and> (sig \<noteq> hs256 l (jwtSecret e) claims \<longrightarrow>
        verifyToken l e now (Signed claims sig) = Inr None)
   \<and> (p_exp claims = Some x \<and> x \<le> now div 1000 \<longrightarrow>
        verifyToken l e now (Signed claims (hs256 l (jwtSecret e) claims)) = Inr None)
   \<and> (nbf_claim claims = Some (JNum n) \<and> of_int (now div 1000) < n \<longrightarrow>
        verifyToken l e now (Signed claims (hs256 l (jwtSecret e) claims)) = Inr None)
   \<and> ((p_exp claims = None \<or> (\<exists>y. p_exp claims = Some y \<and> now div 1000 < y))
        \<and> (nbf_claim claims = None
            \<or> (\<exists>m. nbf_claim claims = Some (JNum m) \<and> m \<le> of_int (now div 1000))) \<longrightarrow>
        verifyToken l e now (Signed claims (hs256 l (jwtSecret e) claims)) = Inr (Some claims))"
proof (intro conjI impI)
  show "\<exists>r. verifyToken l e now tok = Inr r"
    by (cases "jwt_verify l (jwtSecret e) now tok") (simp_all add: verifyToken_def)
  show "verifyToken l e now tok =
       Inr (case jwt_verify l (jwtSecret e) now tok of
              Inr decoded \<Rightarrow> Some decoded | Inl error \<Rightarrow> None)"
    by (cases "jwt_verify l (jwtSecret e) now tok") (simp_all add: verifyToken_def)
  show "verifyToken l e now (Malformed str) = Inr None"
    by (simp add: verifyToken_def jwt_verify_def)
  show "verifyToken l e now (Signed claims sig) = Inr None"
    if "sig \<noteq> hs256 l (jwtSecret e) claims"
    using that by (simp add: verifyToken_def jwt_verify_def)
  show "verifyToken l e now (Signed claims (hs256 l (jwtSecret e) claims)) = Inr None"
    if "p_exp claims = Some x \<and> x \<le> now div 1000"
    using that
    by (simp add: verifyToken_def jwt_verify_def jwt_check_exp_def split: option.splits)
  show "verifyToken l e now (Signed claims (hs256 l (jwtSecret e) claims)) = Inr None"
    if "nbf_claim claims = Some (JNum n) \<and> of_int (now div 1000) < n"
    using that by (simp add: verifyToken_def jwt_verify_def jwt_check_nbf_def)
  show "verifyToken l e now (Signed claims (hs256 l (jwtSecret e) claims)) = Inr (Some claims)"
    if "(p_exp claims = None \<or> (\<exists>y. p_exp claims = Some y \<and> now div 1000 < y))
        \<and> (nbf_claim claims = None
            \<or> (\<exists>m. nbf_claim claims = Some (JNum m) \<and> m \<le> of_int (now div 1000)))"
    using that
    by (auto simp add: verifyToken_def jwt_verify_def jwt_check_nbf_def jwt_check_exp_def)
qed

theorem verifyToken_total_witness:
  "verifyToken demo_lib demo_env 5000 (Malformed ''not.a.jwt'') = Inr None
   \<and> verifyToken demo_lib demo_env 5000 (Signed (session_of alice) ''forged'') = Inr None
   \<and> verifyToken demo_lib demo_env 700000000
        (Signed (session_of alice) (hs256 demo_lib (jwtSecret demo_env) (session_of alice)))
       = Inr None
   \<and> verifyToken demo_lib demo_env 5000
        (Signed postdated_session (hs256 demo_lib (jwtSecret demo_env) postdated_session))
       = Inr None
   \<and> verifyToken demo_lib demo_env 5000
        (Signed (session_of alice) (hs256 demo_lib (jwtSecret demo_env) (session_of alice)))
       = Inr (Some (session_of alice))
   \<and> verifyToken demo_lib demo_env 9000000
        (Signed postdated_session (hs256 demo_lib (jwtSecret demo_env) postdated_session))
       = Inr (Some postdated_session)"
  using verifyToken_total [where l = demo_lib and e = demo_env and now = 5000
          and tok = "Malformed ''not.a.jwt''" and str = "''not.a.jwt''" and sig = "''forged''"
          and claims = "session_of alice" and x = "1 + sevenDays" and n = 0]
        verifyToken_total [where l = demo_lib and e = demo_env and now = 700000000
          and tok = "Malformed ''not.a.jwt''" and str = "''not.a.jwt''" and sig = "''forged''"
          and claims = "session_of alice" and x = "1 + sevenDays" and n = 0]
        verifyToken_total [where l = demo_lib and e = demo_env and now = 5000
          and tok = "Malformed ''not.a.jwt''" and str = "''not.a.jwt''" and sig = "''forged''"
          and claims = postdated_session and x = "1 + sevenDays" and n = 9000]
        verifyToken_total [where l = demo_lib and e = demo_env and now = 9000000
          and tok = "Malformed ''not.a.jwt''" and str = "''not.a.jwt''" and sig = "''forged''"
          and claims = postdated_session and x = "1 + sevenDays" and n = 9000]
  by (simp add: postdated_session_def session_of_def sevenDays_def demo_lib_def demo_env_def
      jwtSecret_def alice_def opt_text_def nbf_claim_def)

subsection \<open>C9: the company and the assignee of a new asset\<close>

text \<open>
  C9: for an authenticated POST /api/assets, a caller without a membership
  gets 403 and the store stays as it was. With memberships, the only data
  that the request can insert is the validated body with \<open>companyId\<close> set
  to that of the first membership and \<open>assignedTo\<close> set to the caller's
  \<open>userId\<close>, and the run is one of three: nothing is inserted (the body
  fails validation or the insert throws), and the store stays as it was; the
  store's \<open>createAsset\<close> inserts that data and the log write throws, and the
  store is the one after the insert; or the insert and the log write succeed,
  the store is the one after both and the answer is 200 with the inserted
  asset. Whatever \<open>companyId\<close> the body carries, or none, the outcome is the
  same.
\<close>

theorem post_assets_company_from_membership:
  assumes user: "req_user req = Some u" "p_userId u = Some userId" "userId \<noteq> []"
  shows "((getUserCompanies st userId s = Inr None
           \<or> getUserCompanies st userId s = Inr (Some [])) \<longrightarrow>
            post_assets st l req s =
              (json_status 403 (Message ''Usuario no asociado a ninguna empresa activa.''), s))
       \<and> (\<forall>uc rest res s'.
             getUserCompanies st userId s = Inr (Some (uc # rest))
             \<and> post_assets st l req s = (res, s') \<longrightarrow>
             (\<exists>d. d = dataToInsert
                        (zod_strip insertAssetSchema
                           (dataToValidate (req_body req) (uc_companyId uc))) userId
                \<and> d ''companyId'' = Some (JStr (uc_companyId uc))
                \<and> d ''assignedTo'' = Some (JStr userId)
                \<and> ((s' = s \<and> res_status res \<noteq> 200
                     \<and> (zod_issues (isEmail l) insertAssetSchema
                           (dataToValidate (req_body req) (uc_companyId uc)) \<noteq> []
                         \<or> (\<exists>err. createAsset st d s = Inl err)))
                    \<or> (\<exists>a s1.
                          zod_issues (isEmail l) insertAssetSchema
                            (dataToValidate (req_body req) (uc_companyId uc)) = []
                          \<and> createAsset st d s = Inr (a, s1)
                          \<and> ((\<exists>err. logActivity st
                                        (created_activity (uc_companyId uc) userId a) s1
                                      = Inl err
                                    \<and> s' = s1 \<and> res = post_assets_catch err)
                              \<or> (logActivity st
                                    (created_activity (uc_companyId uc) userId a) s1
                                  = Inr s'
                                  \<and> res = json_status 200 (AssetJson a)))))))
       \<and> (\<forall>v. post_assets st l (req\<lparr>req_body := (req_body req)(''companyId'' := v)\<rparr>) s
               = post_assets st l req s)"
proof (intro conjI allI impI)
  assume "getUserCompanies st userId s = Inr None
          \<or> getUserCompanies st userId s = Inr (Some [])"
  then show "post_assets st l req s =
     (json_status 403 (Message ''Usuario no asociado a ninguna empresa activa.''), s)"
    by (auto simp add: post_assets_def protected_authenticated [OF user]
        post_assets_handler_def)
next
  fix uc rest res s'
  assume a: "getUserCompanies st userId s = Inr (Some (uc # rest))
             \<and> post_assets st l req s = (res, s')"
  let ?cid = "uc_companyId uc"
  let ?b = "dataToValidate (req_body req) ?cid"
  let ?v = "zod_strip insertAssetSchema ?b"
  let ?d = "dataToInsert ?v userId"
  let ?issues = "zod_issues (isEmail l) insertAssetSchema ?b"
  from a have h: "post_assets_handler st l userId (req_body req) s = (res, s')"
    by (simp add: post_assets_def protected_authenticated [OF user])
  from a have m: "getUserCompanies st userId s = Inr (Some (uc # rest))" by simp
  have run: "(s' = s \<and> res_status res \<noteq> 200
                \<and> (?issues \<noteq> [] \<or> (\<exists>err. createAsset st ?d s = Inl err)))
             \<or> (\<exists>a s1. ?issues = [] \<and> createAsset st ?d s = Inr (a, s1)
                   \<and> ((\<exists>err. logActivity st (created_activity ?cid userId a) s1 = Inl err
                             \<and> s' = s1 \<and> res = post_assets_catch err)
                       \<or> (logActivity st (created_activity ?cid userId a) s1 = Inr s'
                           \<and> res = json_status 200 (AssetJson a))))"
  proof (cases "?issues = []")
    case False
    then have "zod_object_parse (isEmail l) insertAssetSchema ?b = Inl (ZodError ?issues)"
      by (simp add: zod_object_parse_def)
    with h m have "s' = s" "res = post_assets_catch (ZodError ?issues)"
      by (simp_all add: post_assets_handler_def)
    with False show ?thesis by (simp add: post_assets_catch_not_200)
  next
    case True
    then have p: "zod_object_parse (isEmail l) insertAssetSchema ?b = Inr ?v"
      by (rule parse_ok)
    show ?thesis
    proof (cases "createAsset st ?d s")
      case (Inl err)
      with p h m have "s' = s" "res = post_assets_catch err"
        by (simp_all add: post_assets_handler_def)
      with Inl show ?thesis by (simp add: post_assets_catch_not_200)
    next
      case c: (Inr r)
      obtain x s1 where r: "r = (x, s1)" by (cases r)
      show ?thesis
      proof (cases "logActivity st (created_activity ?cid userId x) s1")
        case (Inl err)
        with c r p h m have "s' = s1" "res = post_assets_catch err"
          by (simp_all add: post_assets_handler_def)
        with Inl c r True show ?thesis by simp
      next
        case (Inr s2)
        with c r p h m have "s' = s2" "res = json_status 200 (AssetJson x)"
          by (simp_all add: post_assets_handler_def)
        with Inr c r True show ?thesis by simp
      qed
    qed
  qed
  show "\<exists>d. d = ?d \<and> d ''companyId'' = Some (JStr ?cid)
          \<and> d ''assignedTo'' = Some (JStr userId)
          \<and> ((s' = s \<and> res_status res \<noteq> 200
                \<and> (?issues \<noteq> [] \<or> (\<exists>err. createAsset st d s = Inl err)))
              \<or> (\<exists>a s1. ?issues = [] \<and> createAsset st d s = Inr (a, s1)
                   \<and> ((\<exists>err. logActivity st (created_activity ?cid userId a) s1 = Inl err
                             \<and> s' = s1 \<and> res = post_assets_catch err)
                       \<or> (logActivity st (created_activity ?cid userId a) s1 = Inr s'
                           \<and> res = json_status 200 (AssetJson a)))))"
    using run by (simp add: dataToInsert_fields)
next
  fix v
  let ?req' = "req\<lparr>req_body := (req_body req)(''companyId'' := v)\<rparr>"
  have u': "req_user ?req' = Some u" using user by simp
  have same: "post_assets_handler st l userId ((req_body req)(''companyId'' := v)) s
              = post_assets_handler st l userId (req_body req) s"
    unfolding post_assets_handler_def dataToValidate_overrides ..
  show "post_assets st l ?req' s = post_assets st l req s"
    by (simp add: post_assets_def protected_authenticated [OF u' user(2,3)]
        protected_authenticated [OF user] same)
qed

theorem post_assets_company_from_membership_witness:
  "laptop_body ''companyId'' = Some (JStr ''c2'')
   \<and> laptop_body ''assignedTo'' = Some (JStr ''u0'')
   \<and> (dataToInsert (zod_strip insertAssetSchema (dataToValidate laptop_body ''c1'')) ''u1'') ''companyId'' = Some (JStr ''c1'')
   \<and> (dataToInsert (zod_strip insertAssetSchema (dataToValidate laptop_body ''c1'')) ''u1'') ''assignedTo'' = Some (JStr ''u1'')
   \<and> (\<exists>a s1. createAsset mem_storage (dataToInsert (zod_strip insertAssetSchema (dataToValidate laptop_body ''c1'')) ''u1'') demo_store = Inr (a, s1)
         \<and> logActivity mem_storage (created_activity ''c1'' ''u1'' a) s1 = Inr (snd (post_assets mem_storage demo_lib (request_of alice laptop_body) demo_store))
         \<and> fst (post_assets mem_storage demo_lib (request_of alice laptop_body) demo_store) = json_status 200 (AssetJson a))
   \<and> (\<exists>a. createAsset log_down_storage (dataToInsert (zod_strip insertAssetSchema (dataToValidate laptop_body ''c1'')) ''u1'') demo_store = Inr (a, snd (post_assets log_down_storage demo_lib (request_of alice laptop_body) demo_store)))
   \<and> res_status (fst (post_assets log_down_storage demo_lib (request_of alice laptop_body) demo_store)) = 500
   \<and> post_assets mem_storage demo_lib (request_of root laptop_body) demo_store
       = (json_status 403 (Message ''Usuario no asociado a ninguna empresa activa.''),
          demo_store)"
proof -
  let ?ok = "(post_assets mem_storage demo_lib (request_of alice laptop_body) demo_store)"
  let ?down = "(post_assets log_down_storage demo_lib (request_of alice laptop_body) demo_store)"
  let ?d = "(dataToInsert (zod_strip insertAssetSchema (dataToValidate laptop_body ''c1'')) ''u1'')"
  let ?m = "\<lparr>uc_id = ''m1'', uc_userId = ''u1'', uc_companyId = ''c1'',
             uc_role = ''manager_owner'', uc_createdAt = 0\<rparr>"
  have body: "laptop_body ''companyId'' = Some (JStr ''c2'')"
             "laptop_body ''assignedTo'' = Some (JStr ''u0'')"
    by (simp_all add: laptop_body_def)
  have a1: "req_user (request_of alice laptop_body) = Some (session_of alice)"
    by (simp add: request_of_def)
  have a2: "p_userId (session_of alice) = Some ''u1''"
    by (simp add: session_of_def alice_def)
  have a3: "''u1'' \<noteq> []" by simp
  have b: "req_body (request_of alice laptop_body) = laptop_body"
    by (simp add: request_of_def)
  have cid: "uc_companyId ?m = ''c1''" by simp
  have member: "getUserCompanies mem_storage ''u1'' demo_store = Inr (Some (?m # []))"
    by (simp add: mem_storage_def mem_getUserCompanies_def demo_store_def)
  have member': "getUserCompanies log_down_storage ''u1'' demo_store = Inr (Some (?m # []))"
    by (simp add: log_down_storage_def mem_storage_def mem_getUserCompanies_def
        demo_store_def)
  have ok: "res_status (fst ?ok) = 200"
    by (simp add: demo_post json_status_def)
  have down: "res_status (fst ?down) = 500"
    by (simp add: demo_post_log_down json_status_def)
  have "st_assets (snd ?down) \<noteq> st_assets demo_store"
    unfolding demo_post_log_down by (simp add: demo_store_def)
  then have changed: "snd ?down \<noteq> demo_store" by auto
  have nolog: "\<And>entry x y. logActivity log_down_storage entry x \<noteq> Inr y"
    by (simp add: log_down_storage_def)
  note T = post_assets_company_from_membership [OF a1 a2 a3, of mem_storage demo_store
      demo_lib, THEN conjunct2, THEN conjunct1, rule_format, of ?m "[]" "fst ?ok" "snd ?ok"]
  from T member have
    one: "?d ''companyId'' = Some (JStr ''c1'') \<and> ?d ''assignedTo'' = Some (JStr ''u1'')
      \<and> (\<exists>a s1. createAsset mem_storage ?d demo_store = Inr (a, s1)
         \<and> logActivity mem_storage (created_activity ''c1'' ''u1'' a) s1 = Inr (snd ?ok)
         \<and> fst ?ok = json_status 200 (AssetJson a))"
    using ok by (auto simp add: b post_assets_catch_not_200)
  note T' = post_assets_company_from_membership [OF a1 a2 a3, of log_down_storage demo_store
      demo_lib, THEN conjunct2, THEN conjunct1, rule_format, of ?m "[]" "fst ?down"
      "snd ?down"]
  from T' member' have two: "\<exists>a. createAsset log_down_storage ?d demo_store = Inr (a, snd ?down)"
    using down changed nolog by (auto simp add: b)
  have r1: "req_user (request_of root laptop_body) = Some (session_of root)"
    by (simp add: request_of_def)
  have r2: "p_userId (session_of root) = Some ''u0''"
    by (simp add: session_of_def root_def)
  have r3: "''u0'' \<noteq> []" by simp
  have none: "getUserCompanies mem_storage ''u0'' demo_store = Inr (Some [])"
    by (simp add: mem_storage_def mem_getUserCompanies_def demo_store_def)
  from post_assets_company_from_membership [OF r1 r2 r3, of mem_storage demo_store demo_lib,
      THEN conjunct1] none
  have three: "post_assets mem_storage demo_lib (request_of root laptop_body) demo_store
       = (json_status 403 (Message ''Usuario no asociado a ninguna empresa activa.''),
          demo_store)"
    by simp
  from body one two down three show ?thesis by (intro conjI) simp_all
qed

subsection \<open>C10: what a token carries\<close>

text \<open>
  C10: \<open>generateToken\<close> always succeeds, and the claims it signs are exactly
  \<open>userId\<close> (the payload's \<open>userId\<close>, or its \<open>id\<close> when \<open>userId\<close> is absent
  or empty), \<open>email\<close>, \<open>firstName\<close>, \<open>lastName\<close>, \<open>role\<close> and the
  payload's \<open>supportMode\<close> when it has one, with the issue time of the clock
  and an expiry seven days later; an \<open>iat\<close>, an \<open>exp\<close> or any other field of
  the payload is dropped. The tokens that entering and leaving support mode
  put in the cookie are of this kind: a fresh expiry, with the support
  company set on entry and no support mode on exit.
\<close>

theorem generateToken_fresh_expiry:
  "(\<exists>sig. generateToken l e now pl =
       Inr (Signed
              \<lparr>p_id = None,
               p_userId = (if truthy_str (p_userId pl) then p_userId pl else p_id pl),
               p_email = p_email pl, p_firstName = p_firstName pl,
               p_lastName = p_lastName pl, p_role = p_role pl,
               p_supportMode = p_supportMode pl,
               p_iat = Some (now div 1000),
               p_exp = Some (now div 1000 + 7 * 24 * 60 * 60),
               p_other = []\<rparr> sig))
   \<and> (\<forall>res s' tok. support_access st l e now companyId req s = (res, s')
          \<and> res_cookie res = SetJwt tok \<longrightarrow>
          (\<exists>claims sig sm. tok = Signed claims sig
             \<and> p_iat claims = Some (now div 1000)
             \<and> p_exp claims = Some (now div 1000 + 7 * 24 * 60 * 60)
             \<and> p_supportMode claims = Some sm \<and> sm_companyId sm = companyId))
   \<and> (\<forall>res s' tok. exit_support st l e now req s = (res, s')
          \<and> res_cookie res = SetJwt tok \<longrightarrow>
          (\<exists>claims sig. tok = Signed claims sig
             \<and> p_iat claims = Some (now div 1000)
             \<and> p_exp claims = Some (now div 1000 + 7 * 24 * 60 * 60)
             \<and> p_supportMode claims = None))"
proof (intro conjI allI impI)
  show "\<exists>sig. generateToken l e now pl =
       Inr (Signed
              \<lparr>p_id = None,
               p_userId = (if truthy_str (p_userId pl) then p_userId pl else p_id pl),
               p_email = p_email pl, p_firstName = p_firstName pl,
               p_lastName = p_lastName pl, p_role = p_role pl,
               p_supportMode = p_supportMode pl,
               p_iat = Some (now div 1000),
               p_exp = Some (now div 1000 + 7 * 24 * 60 * 60),
               p_other = []\<rparr> sig)"
    by (simp add: generateToken_eq finalPayload_def js_or_def sevenDays_def)
next
  fix res s' tok
  assume run: "support_access st l e now companyId req s = (res, s') \<and> res_cookie res = SetJwt tok"
  then show "\<exists>claims sig sm. tok = Signed claims sig
             \<and> p_iat claims = Some (now div 1000)
             \<and> p_exp claims = Some (now div 1000 + 7 * 24 * 60 * 60)
             \<and> p_supportMode claims = Some sm \<and> sm_companyId sm = companyId"
    by (auto simp add: support_access_def protected_def support_access_handler_def
        generateToken_eq finalPayload_def sevenDays_def json_status_def unauthorized_def
        superAdminRequired_def Let_def
        split: if_splits option.splits sum.splits)
next
  fix res s' tok
  assume run: "exit_support st l e now req s = (res, s') \<and> res_cookie res = SetJwt tok"
  then show "\<exists>claims sig. tok = Signed claims sig
             \<and> p_iat claims = Some (now div 1000)
             \<and> p_exp claims = Some (now div 1000 + 7 * 24 * 60 * 60)
             \<and> p_supportMode claims = None"
    by (auto simp add: exit_support_def protected_def exit_support_handler_def
        generateToken_eq finalPayload_def sevenDays_def json_status_def unauthorized_def
        superAdminRequired_def Let_def
        split: if_splits option.splits sum.splits)
qed

theorem generateToken_fresh_expiry_witness:
  "p_exp (session_of root) = Some (1 + 7 * 24 * 60 * 60)
   \<and> (\<exists>claims sig sm.
         res_cookie (fst (support_access mem_storage demo_lib demo_env 5000000 ''c2''
                            (request_of root Map.empty) demo_store))
           = SetJwt (Signed claims sig)
         \<and> p_iat claims = Some 5000
         \<and> p_exp claims = Some (5000 + 7 * 24 * 60 * 60)
         \<and> p_supportMode claims = Some sm \<and> sm_companyId sm = ''c2'')"
proof -
  let ?run = "support_access mem_storage demo_lib demo_env 5000000 ''c2''
                (request_of root Map.empty) demo_store"
  let ?tok = "Signed
                ((session_of root)
                   \<lparr>p_supportMode := Some \<lparr>sm_companyId = ''c2'', sm_adminId = ''u0'',
                       sm_startTime = ''2025-01-01T00:00:00.000Z''\<rparr>,
                    p_iat := Some 5000, p_exp := Some (5000 + sevenDays)\<rparr>)
                ''dev-secret-change-in-production/u0/super_admin''"
  have old: "p_exp (session_of root) = Some (1 + 7 * 24 * 60 * 60)"
    by (simp add: session_of_def sevenDays_def)
  have r: "?run = (fst ?run, snd ?run)" by simp
  have c: "res_cookie (fst ?run) = SetJwt ?tok"
    by (simp add: demo_support)
  note T = generateToken_fresh_expiry
         [of demo_lib demo_env 5000000 "session_of root" mem_storage "''c2''"
             "request_of root Map.empty" demo_store, THEN conjunct2, THEN conjunct1,
          rule_format, of "fst ?run" "snd ?run" ?tok]
  from T r c obtain claims sig sm where
    "?tok = Signed claims sig"
    "p_iat claims = Some (5000000 div 1000)"
    "p_exp claims = Some (5000000 div 1000 + 7 * 24 * 60 * 60)"
    "p_supportMode claims = Some sm" "sm_companyId sm = ''c2''"
    by auto
  with c have "\<exists>claims sig sm.
         res_cookie (fst ?run) = SetJwt (Signed claims sig)
         \<and> p_iat claims = Some 5000
         \<and> p_exp claims = Some (5000 + 7 * 24 * 60 * 60)
         \<and> p_supportMode claims = Some sm \<and> sm_companyId sm = ''c2''"
    by auto
  with old show ?thesis by (intro conjI)
qed

end
